theory Spec2Isabelle
  imports Main "HOL-Library.Word" "HOL-Library.Signed_Division"
begin

section \<open>Data model (dwislpy-ast.hh, dwislpy-check.cc)\<close>

text \<open>
  The four primitive types. In the source \<open>Type\<close> is a variant over the empty structs
  \<open>IntTy\<close>, \<open>StrTy\<close>, \<open>BoolTy\<close>, \<open>NoneTy\<close>; \<open>operator==\<close> on it is equality of
  tags, which is HOL equality on this datatype.
\<close>

datatype Type = IntTy | StrTy | BoolTy | NoneTy

text \<open>
  Return behaviour of a statement or block: the variant \<open>Rtns\<close> over \<open>Void\<close>,
  \<open>VoidOr {type}\<close> and \<open>Type\<close>. The third alternative is written \<open>RType\<close> here.
\<close>

datatype Rtns = Void | VoidOr Type | RType Type

text \<open>
  Run-time values: \<open>typedef std::variant<int, bool, std::string, none> Valu\<close>.
  A C++ \<open>int\<close> is a 32-bit machine integer; signed overflow, undefined in C++, is
  modelled as two's complement wrap-around.
\<close>

type_synonym Name = string

datatype Valu = VInt "32 word" | VBool bool | VStr string | VNone

text \<open>
  Expressions: one constructor per subclass of \<open>Expn\<close>, fields in the order of the
  constructor of the class. Source locations (\<open>Locn\<close>) are only used to decorate error
  messages and are left out.
\<close>

datatype Expn =
    Plus Expn Expn
  | Mnus Expn Expn
  | Tmes Expn Expn
  | IDiv Expn Expn
  | IMod Expn Expn
  | Imus Expn
  | Cmlt Expn Expn
  | Cmgt Expn Expn
  | Cmeq Expn Expn
  | Cmle Expn Expn
  | Cmge Expn Expn
  | Conj Expn Expn
  | Disj Expn Expn
  | Negt Expn
  | Inif Expn Expn Expn
  | FCll Name "Expn list"
  | Ltrl Valu
  | Lkup Name
  | Inpt Expn
  | IntC Expn
  | StrC Expn

text \<open>
  Statements and blocks. \<open>Cond\<close> holds the vector \<open>ifcds\<close> of its \<open>if\<close>/\<open>elif\<close> arms
  and the pointer \<open>els\<close>, which the two-argument constructor of \<open>Cond\<close> sets to
  \<open>nullptr\<close> (\<open>None\<close> here). \<open>Elif\<close> is a subclass of \<open>Ifcd\<close> with the same two fields,
  and \<open>Cond\<close> only ever reads these fields, so one constructor \<open>Ifcd\<close> stands for both
  as an element of \<open>ifcds\<close>. \<open>FRtn\<close> holds an expression pointer that its check tests
  against \<open>nullptr\<close>. \<open>Ifcd\<close>, \<open>Elif\<close>, \<open>Else\<close> and \<open>Expn\<close> are themselves subclasses
  of \<open>Stmt\<close>; as members of a statement vector they are \<open>StIfcd\<close>, \<open>StElif\<close>,
  \<open>StElse\<close> and \<open>StExpn\<close> (with the flag \<open>is_statement\<close>).
\<close>

datatype Stmt =
    Asgn Name Expn
  | Ntro Name Type Expn
  | Pleq Name Expn
  | Mneq Name Expn
  | Cond "Ifcd list" "Else option"
  | Whil Expn Blck
  | Rept Expn Blck
  | FRtn "Expn option"
  | PRtn
  | Prnt "Expn list"
  | Pass
  | PCll Name "Expn list"
  | StIfcd Ifcd
  | StElif Ifcd
  | StElse Else
  | StExpn bool Expn
and Blck = Blck "Stmt list"
and Ifcd = Ifcd Expn Blck
and Else = Else Blck

subsection \<open>Errors\<close>

text \<open>
  Every \<open>throw\<close> of the source is a constructor of \<open>error\<close>; the arguments are the
  values that the message is built from (the source location is left out). For the
  checker (\<open>throw DwislpyError\<close> in dwislpy-check.cc and dwislpy-ast.hh):
  \<^item> \<open>BodyNeverReturns\<close>, \<open>BodyMightNotReturn\<close>, \<open>BodyReturnsWrong\<close>: \<open>Defn::chck\<close>,
    "Definition body never returns.", "Definition body might not return.",
    "Definition body returns ... but should return ...";
  \<^item> \<open>StmtReturnsButPrevious\<close>, \<open>MightReturnDifferent\<close>: \<open>Blck::chck\<close>, "Statement
    returns ... but previous statement returns ...", "Statement might return different
    types.";
  \<^item> \<open>NeverIntroduced\<close>, \<open>TypeMismatch\<close>: \<open>Asgn::chck\<close>; \<open>AlreadyIntroduced\<close>:
    \<open>Ntro::chck\<close>, "Variable ... already introduced.";
  \<^item> \<open>ReturnValueMissing\<close>, \<open>ReturnTypeShouldBe\<close>: \<open>FRtn::chck\<close>; \<open>UnexpectedReturn\<close>,
    \<open>ProcReturnsNoValue\<close>: \<open>PRtn::chck\<close>;
  \<^item> \<open>FnNotExists\<close>, \<open>ArityMismatch\<close>, \<open>ArgMismatch\<close>: \<open>PCll::chck\<close> and \<open>FCll::chck\<close>;
  \<^item> \<open>CalledDirectly\<close>: \<open>Ifcd::chck\<close>, \<open>Else::chck\<close>, \<open>Elif::chck\<close>; \<open>ExpnAsStmt\<close>: the
    statement check of an \<open>Expn\<close>;
  \<^item> \<open>NoIfCondition\<close>, \<open>CondNotBool\<close>, \<open>IfReturnMismatch\<close>, \<open>ElseReturnMismatch\<close>:
    \<open>Cond::chck\<close>; \<open>WhileCondNotBool\<close>: \<open>Whil::chck\<close>; \<open>RepeatCondNotBool\<close>:
    \<open>Rept::chck\<close>;
  \<^item> \<open>WrongOperandTypes\<close> with the operator named in "Wrong operand types for ...":
    the operators, \<open>Pleq::chck\<close> and \<open>Mneq::chck\<close>; \<open>NotDefined\<close>: \<open>Pleq::chck\<close> and
    \<open>Mneq::chck\<close>; \<open>InifCondNotBool\<close>, \<open>InifBranchesDiffer\<close>: \<open>Inif::chck\<close>;
    \<open>UnknownIdentifier\<close>: \<open>Lkup::chck\<close>; \<open>InputRequiresString\<close>: \<open>Inpt::chck\<close>;
    \<open>IntCRequiresStrOrInt\<close>: \<open>IntC::chck\<close>, "Input requires a string or integer.".

  For the interpreter (dwislpy-ast.cc): \<open>RtWrongOperandType\<close> ("Run-time error: wrong
  operand type for ..."), \<open>RtDivisionByZero\<close>, \<open>RtNotDefined\<close>, \<open>RtPromptNotString\<close>,
  \<open>RtStringNotInt\<close> and \<open>RtCannotConvert\<close> are its \<open>DwislpyError\<close>s; \<open>LogicError\<close> is
  \<open>std::logic_error\<close> with its message, \<open>BadVariantAccess\<close> the exception of
  \<open>std::get\<close> on a value of another tag, \<open>StoiOutOfRange\<close> the \<open>std::out_of_range\<close>
  of \<open>std::stoi\<close>.

  Two faults that are not exceptions are values of \<open>error\<close> as well: \<open>NullDeref\<close>, the
  dereference of a null pointer (undefined behaviour in C++), and \<open>PopWithoutMark\<close>,
  the failure of \<open>pop_until_mark\<close> without a mark.
\<close>

datatype error =
    BodyNeverReturns
  | BodyMightNotReturn
  | BodyReturnsWrong Type Type
  | StmtReturnsButPrevious Type Type
  | MightReturnDifferent
  | NeverIntroduced Name
  | TypeMismatch Type
  | AlreadyIntroduced Name
  | ReturnValueMissing Type
  | ReturnTypeShouldBe Type Type
  | UnexpectedReturn
  | ProcReturnsNoValue
  | FnNotExists Name
  | ArityMismatch nat nat
  | ArgMismatch nat Type Type
  | CalledDirectly
  | ExpnAsStmt
  | NoIfCondition
  | CondNotBool nat Type
  | IfReturnMismatch nat Type Type
  | ElseReturnMismatch Type Type
  | WhileCondNotBool Type
  | RepeatCondNotBool Type
  | WrongOperandTypes string
  | NotDefined Name
  | InifCondNotBool
  | InifBranchesDiffer
  | UnknownIdentifier Name
  | InputRequiresString
  | IntCRequiresStrOrInt
  | RtWrongOperandType string
  | RtDivisionByZero
  | RtNotDefined Name
  | RtPromptNotString
  | RtStringNotInt string
  | RtCannotConvert
  | LogicError string
  | BadVariantAccess
  | StoiOutOfRange
  | NullDeref
  | PopWithoutMark

subsection \<open>Symbol table\<close>

text \<open>
  Modelled from the spec: the class \<open>SymT\<close> (declared in dwislpy-check.hh, which is
  not among the sources) with its operations \<open>mark\<close>, \<open>pop_until_mark\<close>,
  \<open>is_redefining\<close>, \<open>add_locl\<close>, \<open>has_info\<close>, \<open>get_info\<close>, \<open>get_frmls_size\<close> and
  \<open>get_frml\<close>. The spec describes it as an ordered stack of scope frames, each mapping
  names to \<open>SymInfo\<close> (a name with its declared type); the formal parameters of a
  function occupy the outermost frame. \<open>frmls\<close> is that outermost frame, in declaration
  order; \<open>frames\<close> are the frames pushed by \<open>mark\<close>, innermost first. A frame is a list
  of entries, read with \<open>map_of\<close>.
\<close>

type_synonym SymInfo = "Name \<times> Type"

record SymT =
  frmls :: "SymInfo list"
  frames :: "SymInfo list list"

text \<open>Modelled from the spec: \<open>mark\<close> pushes a new empty frame.\<close>

definition mark :: "SymT \<Rightarrow> SymT" where
  "mark symt = symt\<lparr>frames := [] # frames symt\<rparr>"

text \<open>
  Modelled from the spec: \<open>pop_until_mark\<close> discards the most recently pushed frame
  and fails (a programming error) without a matching \<open>mark\<close>.
\<close>

definition pop_until_mark :: "SymT \<Rightarrow> error + SymT" where
  "pop_until_mark symt =
     (case frames symt of
        [] \<Rightarrow> Inl PopWithoutMark
      | f # fs \<Rightarrow> Inr (symt\<lparr>frames := fs\<rparr>))"

text \<open>Modelled from the spec: the current innermost frame.\<close>

definition current_frame :: "SymT \<Rightarrow> SymInfo list" where
  "current_frame symt = (case frames symt of [] \<Rightarrow> frmls symt | f # fs \<Rightarrow> f)"

text \<open>
  Modelled from the spec: \<open>is_redefining(name)\<close> is true iff the name already has an
  entry in the current innermost frame only.
\<close>

definition is_redefining :: "SymT \<Rightarrow> Name \<Rightarrow> bool" where
  "is_redefining symt x = (map_of (current_frame symt) x \<noteq> None)"

text \<open>
  Modelled from the spec: \<open>add_locl(name, type)\<close> introduces the name in the current
  scope and does not re-check for a redefinition.
\<close>

definition add_locl :: "SymT \<Rightarrow> Name \<Rightarrow> Type \<Rightarrow> SymT" where
  "add_locl symt x ty =
     (case frames symt of
        [] \<Rightarrow> symt\<lparr>frmls := frmls symt @ [(x, ty)]\<rparr>
      | f # fs \<Rightarrow> symt\<lparr>frames := ((x, ty) # f) # fs\<rparr>)"

text \<open>
  Modelled from the spec: the search through the frames, from innermost to outermost.
  A missing entry is \<open>None\<close> (the null pointer).
\<close>

fun lookup_frames :: "SymInfo list list \<Rightarrow> Name \<Rightarrow> SymInfo option" where
  "lookup_frames [] x = None"
| "lookup_frames (f # fs) x =
     (case map_of f x of Some ty \<Rightarrow> Some (x, ty) | None \<Rightarrow> lookup_frames fs x)"

text \<open>
  Modelled from the spec: \<open>get_info(name)\<close> looks the name up across all active
  scopes, the innermost entry wins.
\<close>

definition get_info :: "SymT \<Rightarrow> Name \<Rightarrow> SymInfo option" where
  "get_info symt x = lookup_frames (frames symt @ [frmls symt]) x"

text \<open>Modelled from the spec: \<open>has_info(name)\<close> is the existence test of that lookup.\<close>

definition has_info :: "SymT \<Rightarrow> Name \<Rightarrow> bool" where
  "has_info symt x = (get_info symt x \<noteq> None)"

text \<open>Modelled from the spec: \<open>get_frmls_size()\<close> is the number of formal parameters.\<close>

definition get_frmls_size :: "SymT \<Rightarrow> nat" where
  "get_frmls_size symt = length (frmls symt)"

text \<open>
  Modelled from the spec: \<open>get_frml(i)\<close> is the formal parameter at position \<open>i\<close>
  (\<open>None\<close>, the null pointer, out of range).
\<close>

definition get_frml :: "SymT \<Rightarrow> nat \<Rightarrow> SymInfo option" where
  "get_frml symt i = (if i < length (frmls symt) then Some (frmls symt ! i) else None)"

subsection \<open>Definitions and programs\<close>

text \<open>
  \<open>Defn\<close> has the fields \<open>name\<close>, \<open>args\<close> (a symbol table seeded with the formals),
  \<open>body\<close> and \<open>ret_type\<close>. \<open>Defs\<close> is an unordered map from names to definitions; it is
  an association list here, read with \<open>map_of\<close> (\<open>defs.find\<close>) and traversed in list
  order by \<open>Prgm::chck\<close> (the iteration order of the unordered map is unspecified).
  \<open>Prgm\<close> holds, in this order, \<open>defs\<close>, the pointer \<open>main\<close> (tested against null
  by \<open>chck\<close> and \<open>run\<close>) and \<open>main_symt\<close>.
\<close>

record Defn =
  name :: Name
  args :: SymT
  body :: Blck
  ret_type :: Type

type_synonym Defs = "(Name \<times> Defn) list"

datatype Prgm = Prgm Defs "Blck option" SymT

definition arity :: "Defn \<Rightarrow> nat" where
  "arity fn = get_frmls_size (args fn)"

section \<open>The checker (dwislpy-check.cc)\<close>

fun type_of :: "Rtns \<Rightarrow> Type" where
  "type_of (VoidOr ty) = ty"
| "type_of (RType ty) = ty"
| "type_of Void = NoneTy"

fun has_void :: "Rtns \<Rightarrow> bool" where
  "has_void Void = True"
| "has_void (VoidOr ty) = True"
| "has_void (RType ty) = False"

text \<open>\<open>Ltrl::chck\<close> reads the tag of the literal.\<close>

fun Ltrl_chck :: "Valu \<Rightarrow> Type" where
  "Ltrl_chck (VInt i) = IntTy"
| "Ltrl_chck (VStr s) = StrTy"
| "Ltrl_chck (VBool b) = BoolTy"
| "Ltrl_chck VNone = NoneTy"

text \<open>
  The binary operator rules, as functions of the operand types. Each \<open>chck\<close> of a
  binary node checks the left operand, then the right one, then applies its rule.
\<close>

definition int_int :: "string \<Rightarrow> Type \<Rightarrow> Type \<Rightarrow> Type \<Rightarrow> error + Type" where
  "int_int opname res left_ty rght_ty =
     (if left_ty = IntTy \<and> rght_ty = IntTy then Inr res
      else Inl (WrongOperandTypes opname))"

definition bool_bool :: "string \<Rightarrow> Type \<Rightarrow> Type \<Rightarrow> error + Type" where
  "bool_bool opname left_ty rght_ty =
     (if left_ty = BoolTy \<and> rght_ty = BoolTy then Inr BoolTy
      else Inl (WrongOperandTypes opname))"

definition Plus_rule :: "Type \<Rightarrow> Type \<Rightarrow> error + Type" where
  "Plus_rule left_ty rght_ty =
     (if left_ty = IntTy \<and> rght_ty = IntTy then Inr IntTy
      else if left_ty = StrTy \<and> rght_ty = StrTy then Inr StrTy
      else Inl (WrongOperandTypes ''plus''))"

definition Tmes_rule :: "Type \<Rightarrow> Type \<Rightarrow> error + Type" where
  "Tmes_rule left_ty rght_ty =
     (if left_ty = IntTy \<and> rght_ty = IntTy then Inr IntTy
      else if left_ty = StrTy \<and> rght_ty = IntTy then Inr StrTy
      else Inl (WrongOperandTypes ''times''))"

text \<open>
  Every \<open>chck\<close> of a binary node checks its left operand, then its right operand (an
  error thrown by the left one comes first), then applies its rule to the two types.
\<close>

definition chck_bin ::
  "(Type \<Rightarrow> Type \<Rightarrow> error + Type) \<Rightarrow> error + Type \<Rightarrow> error + Type \<Rightarrow> error + Type" where
  "chck_bin rule left rght =
     (case left of
        Inl e \<Rightarrow> Inl e
      | Inr left_ty \<Rightarrow>
          (case rght of
             Inl e \<Rightarrow> Inl e
           | Inr rght_ty \<Rightarrow> rule left_ty rght_ty))"

text \<open>
  \<open>Expn::chck(defs, symt)\<close>. A thrown \<open>DwislpyError\<close> is \<open>Inl\<close>. \<open>chck_args\<close> is the loop
  of \<open>FCll::chck\<close> and \<open>PCll::chck\<close> over the argument positions \<open>i\<close>, entered only
  when the arity equals the number of arguments.
\<close>

fun chck_expn :: "Defs \<Rightarrow> SymT \<Rightarrow> Expn \<Rightarrow> error + Type"
and chck_args :: "Defs \<Rightarrow> SymT \<Rightarrow> Defn \<Rightarrow> nat \<Rightarrow> Expn list \<Rightarrow> error + unit"
where
  "chck_expn defs symt (Plus l r) = chck_bin Plus_rule (chck_expn defs symt l) (chck_expn defs symt r)"
| "chck_expn defs symt (Mnus l r) =
     chck_bin (int_int ''minus'' IntTy) (chck_expn defs symt l) (chck_expn defs symt r)"
| "chck_expn defs symt (Tmes l r) =
     chck_bin Tmes_rule (chck_expn defs symt l) (chck_expn defs symt r)"
| "chck_expn defs symt (IDiv l r) =
     chck_bin (int_int ''div'' IntTy) (chck_expn defs symt l) (chck_expn defs symt r)"
| "chck_expn defs symt (IMod l r) =
     chck_bin (int_int ''mod'' IntTy) (chck_expn defs symt l) (chck_expn defs symt r)"
| "chck_expn defs symt (Imus e) =
     (case chck_expn defs symt e of
        Inl err \<Rightarrow> Inl err
      | Inr expn_ty \<Rightarrow>
          if expn_ty = IntTy then Inr IntTy
          else Inl (WrongOperandTypes ''inplace minus''))"
| "chck_expn defs symt (Cmlt l r) =
     chck_bin (int_int ''<'' BoolTy) (chck_expn defs symt l) (chck_expn defs symt r)"
| "chck_expn defs symt (Cmgt l r) =
     chck_bin (int_int ''>'' BoolTy) (chck_expn defs symt l) (chck_expn defs symt r)"
| "chck_expn defs symt (Cmeq l r) =
     chck_bin (int_int ''=='' BoolTy) (chck_expn defs symt l) (chck_expn defs symt r)"
| "chck_expn defs symt (Cmle l r) =
     chck_bin (int_int ''<='' BoolTy) (chck_expn defs symt l) (chck_expn defs symt r)"
| "chck_expn defs symt (Cmge l r) =
     chck_bin (int_int ''>='' BoolTy) (chck_expn defs symt l) (chck_expn defs symt r)"
| "chck_expn defs symt (Conj l r) =
     chck_bin (bool_bool ''and'') (chck_expn defs symt l) (chck_expn defs symt r)"
| "chck_expn defs symt (Disj l r) =
     chck_bin (bool_bool ''or'') (chck_expn defs symt l) (chck_expn defs symt r)"
| "chck_expn defs symt (Negt e) =
     (case chck_expn defs symt e of
        Inl err \<Rightarrow> Inl err
      | Inr expr_ty \<Rightarrow>
          if expr_ty = BoolTy then Inr BoolTy
          else Inl (WrongOperandTypes ''not''))"
| "chck_expn defs symt (Inif if_br cond else_br) =
     (case chck_expn defs symt cond of
        Inl err \<Rightarrow> Inl err
      | Inr cond_ty \<Rightarrow>
          if cond_ty \<noteq> BoolTy then Inl InifCondNotBool
          else
            (case chck_expn defs symt if_br of
               Inl err \<Rightarrow> Inl err
             | Inr if_br_ty \<Rightarrow>
                 (case chck_expn defs symt else_br of
                    Inl err \<Rightarrow> Inl err
                  | Inr else_br_ty \<Rightarrow>
                      if if_br_ty \<noteq> else_br_ty then Inl InifBranchesDiffer
                      else Inr if_br_ty)))"
| "chck_expn defs symt (FCll f actuals) =
     (case map_of defs f of
        None \<Rightarrow> Inl (FnNotExists f)
      | Some fn \<Rightarrow>
          if arity fn \<noteq> length actuals then Inl (ArityMismatch (arity fn) (length actuals))
          else
            (case chck_args defs symt fn 0 actuals of
               Inl err \<Rightarrow> Inl err
             | Inr u \<Rightarrow> Inr (ret_type fn)))"
| "chck_expn defs symt (Ltrl valu) = Inr (Ltrl_chck valu)"
| "chck_expn defs symt (Lkup x) =
     (if has_info symt x then
        (case get_info symt x of None \<Rightarrow> Inl NullDeref | Some info \<Rightarrow> Inr (snd info))
      else Inl (UnknownIdentifier x))"
| "chck_expn defs symt (Inpt e) =
     (case chck_expn defs symt e of
        Inl err \<Rightarrow> Inl err
      | Inr expr_ty \<Rightarrow>
          if expr_ty \<noteq> StrTy then Inl InputRequiresString else Inr StrTy)"
| "chck_expn defs symt (IntC e) =
     (case chck_expn defs symt e of
        Inl err \<Rightarrow> Inl err
      | Inr expr_ty \<Rightarrow>
          if expr_ty \<noteq> StrTy \<or> expr_ty \<noteq> IntTy then Inl IntCRequiresStrOrInt
          else Inr IntTy)"
| "chck_expn defs symt (StrC e) =
     (case chck_expn defs symt e of
        Inl err \<Rightarrow> Inl err
      | Inr expr_ty \<Rightarrow> Inr StrTy)"
| "chck_args defs symt fn i [] = Inr ()"
| "chck_args defs symt fn i (a # rest) =
     (case get_frml (args fn) i of
        None \<Rightarrow> Inl NullDeref
      | Some frml \<Rightarrow>
          (case chck_expn defs symt a of
             Inl err \<Rightarrow> Inl err
           | Inr ac_arg_tp \<Rightarrow>
               if snd frml \<noteq> ac_arg_tp then Inl (ArgMismatch i (snd frml) ac_arg_tp)
               else chck_args defs symt fn (Suc i) rest))"

text \<open>The loop of \<open>Prnt::chck\<close> over the printed expressions.\<close>

fun Prnt_chck_loop :: "Defs \<Rightarrow> SymT \<Rightarrow> Expn list \<Rightarrow> error + unit" where
  "Prnt_chck_loop defs symt [] = Inr ()"
| "Prnt_chck_loop defs symt (e # rest) =
     (case chck_expn defs symt e of
        Inl err \<Rightarrow> Inl err
      | Inr expn_ty \<Rightarrow> Prnt_chck_loop defs symt rest)"

text \<open>
  The first loop of \<open>Cond::chck\<close>: the condition of arm \<open>i\<close> has to be of type
  \<open>bool\<close>.
\<close>

fun Cond_chck_conds :: "Defs \<Rightarrow> SymT \<Rightarrow> nat \<Rightarrow> Ifcd list \<Rightarrow> error + unit" where
  "Cond_chck_conds defs symt i [] = Inr ()"
| "Cond_chck_conds defs symt i (Ifcd c b # rest) =
     (case chck_expn defs symt c of
        Inl err \<Rightarrow> Inl err
      | Inr cond_tp \<Rightarrow>
          if cond_tp \<noteq> BoolTy then Inl (CondNotBool i cond_tp)
          else Cond_chck_conds defs symt (Suc i) rest)"

text \<open>
  The merge step that \<open>Cond::chck\<close> runs on the return behaviour \<open>body_rt_tp\<close> of an
  arm: the same statements stand in the body of the loop over the \<open>elif\<close> arms and,
  once more, after it for the \<open>else\<close> arm (only the error message differs, \<open>mismatch\<close>
  here). \<open>return_tp\<close>, \<open>rt_is_void\<close> and \<open>rt_has_void\<close> are the constants computed
  from the first arm; \<open>return_pt\<close> is the variable that is updated.
\<close>

definition Cond_merge ::
  "Type \<Rightarrow> bool \<Rightarrow> bool \<Rightarrow> (Type \<Rightarrow> Type \<Rightarrow> error) \<Rightarrow> Rtns \<Rightarrow> Rtns \<Rightarrow> error + Rtns" where
  "Cond_merge return_tp rt_is_void rt_has_void mismatch return_pt body_rt_tp =
     (let body_has_void = has_void body_rt_tp;
          body_is_void = (body_rt_tp = Void)
      in if body_is_void then
           (if \<not> rt_is_void then Inr (VoidOr (type_of return_pt)) else Inr return_pt)
         else
           (let body_tp = type_of body_rt_tp
            in if return_tp \<noteq> body_tp then Inl (mismatch return_tp body_tp)
               else if rt_has_void \<or> body_has_void then Inr (VoidOr return_tp)
               else Inr return_pt))"

text \<open>
  The second loop of \<open>Cond::chck\<close>, \<open>for (i = 1; i < ifcds.size(); i++)\<close>. Its body
  checks \<open>ifcds[0]->body\<close> in every round, never \<open>ifcds[i]->body\<close>: \<open>chck0\<close> is that
  call \<open>ifcds[0]->body->chck(expd, defs, symt)\<close>, and the arms \<open>ifcds[1]\<close>, \<open>ifcds[2]\<close>,
  ... only count the rounds.
\<close>

fun Cond_elif_loop ::
  "(SymT \<Rightarrow> error + Rtns \<times> SymT) \<Rightarrow> Type \<Rightarrow> bool \<Rightarrow> bool \<Rightarrow> nat \<Rightarrow> Ifcd list \<Rightarrow>
     Rtns \<Rightarrow> SymT \<Rightarrow> error + Rtns \<times> SymT" where
  "Cond_elif_loop chck0 return_tp rt_is_void rt_has_void i [] return_pt symt =
     Inr (return_pt, symt)"
| "Cond_elif_loop chck0 return_tp rt_is_void rt_has_void i (ifcd_i # rest) return_pt symt =
     (case chck0 symt of
        Inl err \<Rightarrow> Inl err
      | Inr (body_rt_tp, symt') \<Rightarrow>
          (case Cond_merge return_tp rt_is_void rt_has_void (IfReturnMismatch i)
                  return_pt body_rt_tp of
             Inl err \<Rightarrow> Inl err
           | Inr return_pt' \<Rightarrow>
               Cond_elif_loop chck0 return_tp rt_is_void rt_has_void (Suc i) rest
                 return_pt' symt'))"

text \<open>
  \<open>Stmt::chck(expd, defs, symt)\<close> and \<open>Blck::chck(expd, defs, symt)\<close>. The symbol
  table is passed by reference in the source; here it is passed in and returned with
  the return behaviour. \<open>Blck_chck_loop\<close> is the loop of \<open>Blck::chck\<close> over the
  statements, with its variable \<open>rtns\<close>; \<open>break\<close> leaves the loop without looking at
  the remaining statements. Dereferencing the null pointer \<open>els\<close> (undefined
  behaviour in C++) is the fault \<open>NullDeref\<close>.
\<close>

fun chck_stmt :: "Rtns \<Rightarrow> Defs \<Rightarrow> SymT \<Rightarrow> Stmt \<Rightarrow> error + Rtns \<times> SymT"
and Blck_chck_loop :: "Rtns \<Rightarrow> Defs \<Rightarrow> SymT \<Rightarrow> Rtns \<Rightarrow> Stmt list \<Rightarrow> error + Rtns \<times> SymT"
and chck_blck :: "Rtns \<Rightarrow> Defs \<Rightarrow> SymT \<Rightarrow> Blck \<Rightarrow> error + Rtns \<times> SymT"
where
  "chck_blck expd defs symt (Blck stmts) =
     (case Blck_chck_loop expd defs (mark symt) Void stmts of
        Inl err \<Rightarrow> Inl err
      | Inr (rtns, symt') \<Rightarrow>
          (case pop_until_mark symt' of
             Inl err \<Rightarrow> Inl err
           | Inr symt'' \<Rightarrow> Inr (rtns, symt'')))"
| "Blck_chck_loop expd defs symt rtns [] = Inr (rtns, symt)"
| "Blck_chck_loop expd defs symt rtns (stmt # rest) =
     (case chck_stmt expd defs symt stmt of
        Inl err \<Rightarrow> Inl err
      | Inr (stmt_rtns, symt') \<Rightarrow>
          (case stmt_rtns of
             RType ty \<Rightarrow>
               if rtns \<noteq> Void \<and> type_of rtns \<noteq> type_of stmt_rtns
               then Inl (StmtReturnsButPrevious (type_of stmt_rtns) (type_of rtns))
               else Inr (stmt_rtns, symt')
           | VoidOr ty \<Rightarrow>
               if rtns = Void then Blck_chck_loop expd defs symt' stmt_rtns rest
               else if type_of rtns \<noteq> type_of stmt_rtns then Inl MightReturnDifferent
               else Blck_chck_loop expd defs symt' rtns rest
           | Void \<Rightarrow> Blck_chck_loop expd defs symt' rtns rest))"
| "chck_stmt expd defs symt (Asgn x e) =
     (if \<not> has_info symt x then Inl (NeverIntroduced x)
      else
        (case get_info symt x of
           None \<Rightarrow> Inl NullDeref
         | Some info \<Rightarrow>
             (case chck_expn defs symt e of
                Inl err \<Rightarrow> Inl err
              | Inr expn_ty \<Rightarrow>
                  if snd info \<noteq> expn_ty then Inl (TypeMismatch (snd info))
                  else Inr (Void, symt))))"
| "chck_stmt expd defs symt Pass = Inr (Void, symt)"
| "chck_stmt expd defs symt (Prnt expns) =
     (case Prnt_chck_loop defs symt expns of
        Inl err \<Rightarrow> Inl err
      | Inr u \<Rightarrow> Inr (Void, symt))"
| "chck_stmt expd defs symt (Ntro x ty e) =
     (if is_redefining symt x then Inl (AlreadyIntroduced x)
      else
        (case chck_expn defs symt e of
           Inl err \<Rightarrow> Inl err
         | Inr expn_type \<Rightarrow> Inr (Void, add_locl symt x expn_type)))"
| "chck_stmt expd defs symt (FRtn expn) =
     (let expd_ty = type_of expd
      in case expn of
           None \<Rightarrow> Inl (ReturnValueMissing expd_ty)
         | Some e \<Rightarrow>
             (case chck_expn defs symt e of
                Inl err \<Rightarrow> Inl err
              | Inr actual_tp \<Rightarrow>
                  if expd_ty = actual_tp then Inr (RType expd_ty, symt)
                  else Inl (ReturnTypeShouldBe expd_ty actual_tp)))"
| "chck_stmt expd defs symt PRtn =
     (if expd = Void then Inl UnexpectedReturn
      else if type_of expd \<noteq> NoneTy then Inl ProcReturnsNoValue
      else Inr (RType NoneTy, symt))"
| "chck_stmt expd defs symt (PCll f actuals) =
     (case map_of defs f of
        None \<Rightarrow> Inl (FnNotExists f)
      | Some fn \<Rightarrow>
          if arity fn \<noteq> length actuals then Inl (ArityMismatch (arity fn) (length actuals))
          else
            (case chck_args defs symt fn 0 actuals of
               Inl err \<Rightarrow> Inl err
             | Inr u \<Rightarrow> Inr (Void, symt)))"
| "chck_stmt expd defs symt (StIfcd ifcd) = Inl CalledDirectly"
| "chck_stmt expd defs symt (StElse els) = Inl CalledDirectly"
| "chck_stmt expd defs symt (StElif ifcd) = Inl CalledDirectly"
| "chck_stmt expd defs symt (StExpn is_statement e) = Inl ExpnAsStmt"
| "chck_stmt expd defs symt (Cond [] els) = Inl NoIfCondition"
| "chck_stmt expd defs symt (Cond (Ifcd c0 b0 # rest) els) =
     (case Cond_chck_conds defs symt 0 (Ifcd c0 b0 # rest) of
        Inl err \<Rightarrow> Inl err
      | Inr u \<Rightarrow>
          (case chck_blck expd defs symt b0 of
             Inl err \<Rightarrow> Inl err
           | Inr (return_pt, symt1) \<Rightarrow>
               (let return_tp = type_of return_pt;
                    rt_is_void = (return_pt = Void);
                    rt_has_void = has_void return_pt
                in case Cond_elif_loop (\<lambda>s. chck_blck expd defs s b0)
                          return_tp rt_is_void rt_has_void 1 rest return_pt symt1 of
                     Inl err \<Rightarrow> Inl err
                   | Inr (return_pt2, symt2) \<Rightarrow>
                       (case els of
                          None \<Rightarrow> Inl NullDeref
                        | Some (Else eb) \<Rightarrow>
                            (case chck_blck expd defs symt2 eb of
                               Inl err \<Rightarrow> Inl err
                             | Inr (body_rt_tp, symt3) \<Rightarrow>
                                 (case Cond_merge return_tp rt_is_void rt_has_void
                                         ElseReturnMismatch return_pt2 body_rt_tp of
                                    Inl err \<Rightarrow> Inl err
                                  | Inr return_pt3 \<Rightarrow> Inr (return_pt3, symt3)))))))"
| "chck_stmt expd defs symt (Whil c b) =
     (case chck_expn defs symt c of
        Inl err \<Rightarrow> Inl err
      | Inr cond_tp \<Rightarrow>
          if cond_tp \<noteq> BoolTy then Inl (WhileCondNotBool cond_tp)
          else
            (case chck_blck expd defs symt b of
               Inl err \<Rightarrow> Inl err
             | Inr (body_tp, symt') \<Rightarrow>
                 if body_tp = Void then Inr (Void, symt')
                 else Inr (VoidOr (type_of body_tp), symt')))"
| "chck_stmt expd defs symt (Rept c b) =
     (case chck_expn defs symt c of
        Inl err \<Rightarrow> Inl err
      | Inr cond_tp \<Rightarrow>
          if cond_tp \<noteq> BoolTy then Inl (RepeatCondNotBool cond_tp)
          else
            (case chck_blck expd defs symt b of
               Inl err \<Rightarrow> Inl err
             | Inr (body_tp, symt') \<Rightarrow>
                 if body_tp = Void then Inr (Void, symt')
                 else Inr (VoidOr (type_of body_tp), symt')))"
| "chck_stmt expd defs symt (Pleq x e) =
     (if \<not> has_info symt x then Inl (NotDefined x)
      else
        (case get_info symt x of
           None \<Rightarrow> Inl NullDeref
         | Some stored \<Rightarrow>
             (case chck_expn defs symt e of
                Inl err \<Rightarrow> Inl err
              | Inr rght_ty \<Rightarrow>
                  if snd stored = IntTy \<and> rght_ty = IntTy then Inr (Void, symt)
                  else if snd stored = StrTy \<and> rght_ty = StrTy then Inr (Void, symt)
                  else Inl (WrongOperandTypes ''plus eq''))))"
| "chck_stmt expd defs symt (Mneq x e) =
     (if \<not> has_info symt x then Inl (NotDefined x)
      else
        (case get_info symt x of
           None \<Rightarrow> Inl NullDeref
         | Some stored \<Rightarrow>
             (case chck_expn defs symt e of
                Inl err \<Rightarrow> Inl err
              | Inr rght_ty \<Rightarrow>
                  if snd stored = IntTy \<and> rght_ty = IntTy then Inr (Void, symt)
                  else Inl (WrongOperandTypes ''minus eq''))))"

text \<open>
  \<open>Defn::chck(defs)\<close> checks the body against the declared return type, with the
  definition's own table \<open>args\<close>.
\<close>

definition Defn_chck :: "Defs \<Rightarrow> Defn \<Rightarrow> error + unit" where
  "Defn_chck defs fn =
     (case chck_blck (RType (ret_type fn)) defs (args fn) (body fn) of
        Inl err \<Rightarrow> Inl err
      | Inr (rtns, symt') \<Rightarrow>
          if rtns = Void then Inl BodyNeverReturns
          else if (case rtns of VoidOr ty \<Rightarrow> True | _ \<Rightarrow> False) then Inl BodyMightNotReturn
          else if type_of rtns \<noteq> ret_type fn
          then Inl (BodyReturnsWrong (type_of rtns) (ret_type fn))
          else Inr ())"

text \<open>
  \<open>Prgm::chck()\<close>: every definition, then the main script against \<open>Void\<close>. When the
  script's behaviour is not \<open>Void\<close> the source evaluates the expression statement
  \<open>DwislpyError(main->where(), "Main script should not return.");\<close> which builds
  the error object and drops it: nothing is thrown, and both branches return.
\<close>

fun Prgm_chck_defs :: "Defs \<Rightarrow> (Name \<times> Defn) list \<Rightarrow> error + unit" where
  "Prgm_chck_defs defs [] = Inr ()"
| "Prgm_chck_defs defs (dfpr # rest) =
     (case Defn_chck defs (snd dfpr) of
        Inl err \<Rightarrow> Inl err
      | Inr u \<Rightarrow> Prgm_chck_defs defs rest)"

fun Prgm_chck :: "Prgm \<Rightarrow> error + unit" where
  "Prgm_chck (Prgm defs main_blck main_symt) =
     (case Prgm_chck_defs defs defs of
        Inl err \<Rightarrow> Inl err
      | Inr u \<Rightarrow>
          (case main_blck of
             None \<Rightarrow> Inr ()
           | Some blck \<Rightarrow>
               (case chck_blck Void defs main_symt blck of
                  Inl err \<Rightarrow> Inl err
                | Inr (rtns, symt') \<Rightarrow>
                    if rtns \<noteq> Void then Inr () else Inr ())))"

section \<open>The interpreter (dwislpy-ast.cc)\<close>

text \<open>
  The run-time context \<open>Ctxt\<close> is an unordered map from names to values. The console
  is part of the state: \<open>cin\<close> holds the whitespace-separated tokens still to be read,
  \<open>cout\<close> the characters written so far.
\<close>

type_synonym Ctxt = "Name \<rightharpoonup> Valu"

record IO =
  cin :: "string list"
  cout :: string

text \<open>
  \<open>std::to_string(int)\<close> and the helper \<open>to_string(Valu)\<close> of the source.
\<close>

fun digits_of :: "nat \<Rightarrow> string" where
  "digits_of n =
     (if n < 10 then [''0123456789'' ! n]
      else digits_of (n div 10) @ [''0123456789'' ! (n mod 10)])"

declare digits_of.simps [simp del]

definition int_to_string :: "32 word \<Rightarrow> string" where
  "int_to_string w =
     (if sint w < 0 then CHR ''-'' # digits_of (nat (- sint w)) else digits_of (nat (sint w)))"

fun to_string :: "Valu \<Rightarrow> string" where
  "to_string (VInt i) = int_to_string i"
| "to_string (VStr s) = s"
| "to_string (VBool b) = (if b then ''True'' else ''False'')"
| "to_string VNone = ''None''"

text \<open>
  \<open>std::stoi\<close> (base 10): leading white space is skipped, an optional sign and the
  longest run of digits are read; no digit is \<open>std::invalid_argument\<close>, which
  \<open>IntC::eval\<close> catches and turns into its own error, and a value outside of \<open>int\<close> is
  \<open>std::out_of_range\<close>, which it does not catch.
\<close>

definition is_space :: "char \<Rightarrow> bool" where
  "is_space c = (c \<in> set [CHR '' '', CHR 0x09, CHR 0x0A, CHR 0x0B, CHR 0x0C, CHR 0x0D])"

definition is_digit :: "char \<Rightarrow> bool" where
  "is_digit c = (c \<in> set ''0123456789'')"

definition digit_val :: "char \<Rightarrow> int" where
  "digit_val c = int (of_char c) - 48"

datatype stoi_result = StoiValue "32 word" | StoiInvalidArgument | StoiRange

definition stoi :: "string \<Rightarrow> stoi_result" where
  "stoi s =
     (let s1 = dropWhile is_space s;
          neg = (s1 \<noteq> [] \<and> hd s1 = CHR ''-'');
          s2 = (if s1 \<noteq> [] \<and> (hd s1 = CHR ''-'' \<or> hd s1 = CHR ''+'') then tl s1 else s1);
          ds = takeWhile is_digit s2;
          v = foldl (\<lambda>a c. 10 * a + digit_val c) 0 ds;
          v' = (if neg then - v else v)
      in if ds = [] then StoiInvalidArgument
         else if v' < - (2 ^ 31) \<or> 2 ^ 31 \<le> v' then StoiRange
         else StoiValue (word_of_int v'))"

text \<open>
  A run of the interpreter either raises an exception (\<open>Inl\<close>) or returns (\<open>Inr\<close>); the
  functions below take a bound on the depth of the nested calls and loop rounds and
  return \<open>None\<close> when it is used up, since a program may run forever.
\<close>

type_synonym 'a run = "(error + 'a) option"

definition bind_run :: "'a run \<Rightarrow> ('a \<Rightarrow> 'b run) \<Rightarrow> 'b run" where
  "bind_run m f =
     (case m of
        None \<Rightarrow> None
      | Some (Inl err) \<Rightarrow> Some (Inl err)
      | Some (Inr x) \<Rightarrow> f x)"

definition raise :: "error \<Rightarrow> 'a run" where
  "raise err = Some (Inl err)"

definition return :: "'a \<Rightarrow> 'a run" where
  "return x = Some (Inr x)"

text \<open>\<open>std::get<T>\<close> throws \<open>std::bad_variant_access\<close> on a value of another tag.\<close>

fun get_int :: "Valu \<Rightarrow> 32 word run" where
  "get_int (VInt i) = return i"
| "get_int v = raise BadVariantAccess"

fun get_bool :: "Valu \<Rightarrow> bool run" where
  "get_bool (VBool b) = return b"
| "get_bool v = raise BadVariantAccess"

fun get_string :: "Valu \<Rightarrow> string run" where
  "get_string (VStr s) = return s"
| "get_string v = raise BadVariantAccess"

text \<open>
  The operations of the binary nodes on the two operand values. Division and remainder
  of C++ truncate towards zero (\<open>sdiv\<close>, \<open>smod\<close> on the signed values).
\<close>

fun Plus_eval :: "Valu \<Rightarrow> Valu \<Rightarrow> Valu run" where
  "Plus_eval (VInt ln) (VInt rn) = return (VInt (ln + rn))"
| "Plus_eval (VStr ls) (VStr rs) = return (VStr (ls @ rs))"
| "Plus_eval lv rv = raise (RtWrongOperandType ''plus'')"

fun Mnus_eval :: "Valu \<Rightarrow> Valu \<Rightarrow> Valu run" where
  "Mnus_eval (VInt ln) (VInt rn) = return (VInt (ln - rn))"
| "Mnus_eval lv rv = raise (RtWrongOperandType ''minus'')"

text \<open>
  In \<open>Tmes::eval\<close> the loop \<open>for (unsigned int i = 0; i < rn; i++)\<close> compares after
  converting \<open>rn\<close> to \<open>unsigned\<close>.
\<close>

fun Tmes_eval :: "Valu \<Rightarrow> Valu \<Rightarrow> Valu run" where
  "Tmes_eval (VInt ln) (VInt rn) = return (VInt (ln * rn))"
| "Tmes_eval (VStr ln) (VInt rn) = return (VStr (concat (replicate (unat rn) ln)))"
| "Tmes_eval lv rv = raise (RtWrongOperandType ''times'')"

fun IDiv_eval :: "Valu \<Rightarrow> Valu \<Rightarrow> Valu run" where
  "IDiv_eval (VInt ln) (VInt rn) =
     (if rn = 0 then raise RtDivisionByZero else return (VInt (word_of_int (sint ln sdiv sint rn))))"
| "IDiv_eval lv rv = raise (RtWrongOperandType ''quotient'')"

fun IMod_eval :: "Valu \<Rightarrow> Valu \<Rightarrow> Valu run" where
  "IMod_eval (VInt ln) (VInt rn) =
     (if rn = 0 then raise RtDivisionByZero else return (VInt (word_of_int (sint ln smod sint rn))))"
| "IMod_eval lv rv = raise (RtWrongOperandType ''remainder'')"

definition cmp_eval :: "(int \<Rightarrow> int \<Rightarrow> bool) \<Rightarrow> Valu \<Rightarrow> Valu \<Rightarrow> Valu run" where
  "cmp_eval rel lv rv =
     bind_run (get_int lv) (\<lambda>ln.
     bind_run (get_int rv) (\<lambda>rn. return (VBool (rel (sint ln) (sint rn)))))"

text \<open>\<open>std::cin >> vl\<close> reads the next token; at the end of the input \<open>vl\<close> is empty.\<close>

definition read_token :: "IO \<Rightarrow> string \<times> IO" where
  "read_token io =
     (case cin io of
        [] \<Rightarrow> ([], io)
      | vl # rest \<Rightarrow> (vl, io\<lparr>cin := rest\<rparr>))"

definition put_string :: "string \<Rightarrow> IO \<Rightarrow> IO" where
  "put_string s io = io\<lparr>cout := cout io @ s\<rparr>"

definition IntC_eval :: "Valu \<Rightarrow> Valu run" where
  "IntC_eval v =
     (case v of
        VInt i \<Rightarrow> return v
      | VStr s \<Rightarrow>
          (case stoi s of
             StoiValue i \<Rightarrow> return (VInt i)
           | StoiInvalidArgument \<Rightarrow> raise (RtStringNotInt s)
           | StoiRange \<Rightarrow> raise StoiOutOfRange)
      | VBool b \<Rightarrow> return (VInt (if b then 1 else 0))
      | VNone \<Rightarrow> raise RtCannotConvert)"

text \<open>
  The methods of the interpreter call each other through virtual calls on the
  sub-nodes. Each method is written here over the callees it uses: \<open>ev\<close> stands for
  \<open>Expn::eval\<close> on a sub-expression, \<open>ex\<close> for \<open>Stmt::exec\<close>, \<open>exb\<close> for \<open>Blck::exec\<close>
  and \<open>call\<close> for \<open>Defn::exec\<close>. The functions \<open>eval\<close>, \<open>exec\<close>, \<open>Blck_exec\<close> and
  \<open>Defn_exec\<close> at the end of the section close the recursion. An expression cannot
  change the context (it is \<open>const\<close>) but reads and writes the console; a statement
  returns \<open>std::optional<Valu>\<close> and the updated context. Operands are taken left to
  right where the source leaves the order open (the comparisons).
\<close>

type_synonym evaluator = "IO \<Rightarrow> Expn \<Rightarrow> (Valu \<times> IO) run"
type_synonym caller = "IO \<Rightarrow> Defn \<Rightarrow> Expn list \<Rightarrow> (Valu \<times> IO) run"
type_synonym 'a executor = "Ctxt \<Rightarrow> IO \<Rightarrow> 'a \<Rightarrow> (Valu option \<times> Ctxt \<times> IO) run"

definition eval_bin ::
  "evaluator \<Rightarrow> (Valu \<Rightarrow> Valu \<Rightarrow> Valu run) \<Rightarrow> IO \<Rightarrow> Expn \<Rightarrow> Expn \<Rightarrow> (Valu \<times> IO) run" where
  "eval_bin ev f io l r =
     bind_run (ev io l) (\<lambda>(lv, io1).
     bind_run (ev io1 r) (\<lambda>(rv, io2).
     bind_run (f lv rv) (\<lambda>v. return (v, io2))))"

text \<open>\<open>Expn::eval\<close>, one equation for each subclass.\<close>

fun Expn_eval :: "evaluator \<Rightarrow> caller \<Rightarrow> Defs \<Rightarrow> Ctxt \<Rightarrow> IO \<Rightarrow> Expn \<Rightarrow> (Valu \<times> IO) run" where
  "Expn_eval ev call defs ctxt io (Plus l r) = eval_bin ev Plus_eval io l r"
| "Expn_eval ev call defs ctxt io (Mnus l r) = eval_bin ev Mnus_eval io l r"
| "Expn_eval ev call defs ctxt io (Tmes l r) = eval_bin ev Tmes_eval io l r"
| "Expn_eval ev call defs ctxt io (IDiv l r) = eval_bin ev IDiv_eval io l r"
| "Expn_eval ev call defs ctxt io (IMod l r) = eval_bin ev IMod_eval io l r"
| "Expn_eval ev call defs ctxt io (Cmlt l r) = eval_bin ev (cmp_eval (<)) io l r"
| "Expn_eval ev call defs ctxt io (Cmgt l r) = eval_bin ev (cmp_eval (>)) io l r"
| "Expn_eval ev call defs ctxt io (Cmeq l r) = eval_bin ev (cmp_eval (=)) io l r"
| "Expn_eval ev call defs ctxt io (Cmle l r) = eval_bin ev (cmp_eval (\<le>)) io l r"
| "Expn_eval ev call defs ctxt io (Cmge l r) = eval_bin ev (cmp_eval (\<ge>)) io l r"
| "Expn_eval ev call defs ctxt io (Imus e) =
     bind_run (ev io e) (\<lambda>(v, io1).
     bind_run (get_int v) (\<lambda>i. return (VInt (- i), io1)))"
| "Expn_eval ev call defs ctxt io (Negt e) =
     bind_run (ev io e) (\<lambda>(v, io1).
     bind_run (get_bool v) (\<lambda>b. return (VBool (\<not> b), io1)))"
| "Expn_eval ev call defs ctxt io (Conj l r) =
     bind_run (ev io l) (\<lambda>(lv, io1).
     bind_run (get_bool lv) (\<lambda>lb.
       if \<not> lb then return (VBool False, io1)
       else
         bind_run (ev io1 r) (\<lambda>(rv, io2).
         bind_run (get_bool rv) (\<lambda>rb. return (VBool rb, io2)))))"
| "Expn_eval ev call defs ctxt io (Disj l r) =
     bind_run (ev io l) (\<lambda>(lv, io1).
     bind_run (get_bool lv) (\<lambda>lb.
       if lb then return (VBool True, io1)
       else
         bind_run (ev io1 r) (\<lambda>(rv, io2).
         bind_run (get_bool rv) (\<lambda>rb. return (VBool rb, io2)))))"
| "Expn_eval ev call defs ctxt io (Inif if_br cond else_br) =
     bind_run (ev io cond) (\<lambda>(cv, io1).
     bind_run (get_bool cv) (\<lambda>cb. if cb then ev io1 if_br else ev io1 else_br))"
| "Expn_eval ev call defs ctxt io (FCll f actuals) =
     (case map_of defs f of
        None \<Rightarrow> raise (LogicError ''Function not found'')
      | Some fn \<Rightarrow> call io fn actuals)"
| "Expn_eval ev call defs ctxt io (Ltrl valu) = return (valu, io)"
| "Expn_eval ev call defs ctxt io (Lkup x) =
     (case ctxt x of
        Some v \<Rightarrow> return (v, io)
      | None \<Rightarrow> raise (RtNotDefined x))"
| "Expn_eval ev call defs ctxt io (Inpt e) =
     bind_run (ev io e) (\<lambda>(v, io1).
       case v of
         VStr prompt \<Rightarrow>
           (case read_token (put_string prompt io1) of (vl, io2) \<Rightarrow> return (VStr vl, io2))
       | _ \<Rightarrow> raise RtPromptNotString)"
| "Expn_eval ev call defs ctxt io (IntC e) =
     bind_run (ev io e) (\<lambda>(v, io1).
     bind_run (IntC_eval v) (\<lambda>i. return (i, io1)))"
| "Expn_eval ev call defs ctxt io (StrC e) =
     bind_run (ev io e) (\<lambda>(v, io1). return (VStr (to_string v), io1))"

text \<open>
  \<open>Defn::exec\<close>: the arguments are evaluated in the caller's context \<open>ctxt\<close> and
  stored in a copy \<open>new_ctxt\<close> of it, in which the body runs.
\<close>

fun Defn_exec_args :: "evaluator \<Rightarrow> Defn \<Rightarrow> Ctxt \<Rightarrow> IO \<Rightarrow> nat \<Rightarrow> Expn list \<Rightarrow> (Ctxt \<times> IO) run" where
  "Defn_exec_args ev fn new_ctxt io i [] = return (new_ctxt, io)"
| "Defn_exec_args ev fn new_ctxt io i (a # rest) =
     (case get_frml (args fn) i of
        None \<Rightarrow> raise NullDeref
      | Some frml \<Rightarrow>
          bind_run (ev io a) (\<lambda>(v, io1).
            Defn_exec_args ev fn (new_ctxt(fst frml \<mapsto> v)) io1 (Suc i) rest))"

definition Defn_exec_body ::
  "evaluator \<Rightarrow> Blck executor \<Rightarrow> Ctxt \<Rightarrow> IO \<Rightarrow> Defn \<Rightarrow> Expn list \<Rightarrow> (Valu \<times> IO) run" where
  "Defn_exec_body ev exb ctxt io fn vec =
     (if get_frmls_size (args fn) \<noteq> length vec
      then raise (LogicError ''Wrong number of arguments'')
      else
        bind_run (Defn_exec_args ev fn ctxt io 0 vec) (\<lambda>(new_ctxt, io1).
        bind_run (exb new_ctxt io1 (body fn)) (\<lambda>(rv, ctxt', io2).
          return (case rv of None \<Rightarrow> VNone | Some v \<Rightarrow> v, io2))))"

text \<open>\<open>Blck::exec\<close> stops at the first statement that returns a value.\<close>

fun Blck_exec_loop :: "Stmt executor \<Rightarrow> Ctxt \<Rightarrow> IO \<Rightarrow> Stmt list \<Rightarrow> (Valu option \<times> Ctxt \<times> IO) run" where
  "Blck_exec_loop ex ctxt io [] = return (None, ctxt, io)"
| "Blck_exec_loop ex ctxt io (s # rest) =
     bind_run (ex ctxt io s) (\<lambda>(rv, ctxt', io').
       case rv of
         Some v \<Rightarrow> return (rv, ctxt', io')
       | None \<Rightarrow> Blck_exec_loop ex ctxt' io' rest)"

text \<open>
  \<open>Cond::exec\<close> runs the body of the first arm whose condition holds, the body of
  \<open>els\<close> when there is one and no condition holds.
\<close>

fun Cond_exec_loop ::
  "evaluator \<Rightarrow> Blck executor \<Rightarrow> Ctxt \<Rightarrow> IO \<Rightarrow> Ifcd list \<Rightarrow> Else option \<Rightarrow>
     (Valu option \<times> Ctxt \<times> IO) run" where
  "Cond_exec_loop ev exb ctxt io [] els =
     (case els of
        Some (Else b) \<Rightarrow> exb ctxt io b
      | None \<Rightarrow> return (None, ctxt, io))"
| "Cond_exec_loop ev exb ctxt io (Ifcd c b # rest) els =
     bind_run (ev io c) (\<lambda>(cv, io1).
     bind_run (get_bool cv) (\<lambda>cb.
       if cb then exb ctxt io1 b
       else Cond_exec_loop ev exb ctxt io1 rest els))"

text \<open>
  \<open>Prnt::exec\<close> writes the first value, then a blank and the value for each further
  expression, then the end of the line.
\<close>

fun Prnt_exec_loop :: "evaluator \<Rightarrow> IO \<Rightarrow> Expn list \<Rightarrow> IO run" where
  "Prnt_exec_loop ev io [] = return io"
| "Prnt_exec_loop ev io (e # rest) =
     bind_run (ev (put_string '' '' io) e) (\<lambda>(v, io1).
       Prnt_exec_loop ev (put_string (to_string v) io1) rest)"

text \<open>
  \<open>Stmt::exec\<close>, one equation for each subclass. \<open>ctxt[name]\<close> in \<open>Pleq::exec\<close> and
  \<open>Mneq::exec\<close> inserts the value-initialised \<open>Valu\<close>, the \<open>int\<close> 0, for a name that
  is not bound. \<open>Whil::exec\<close> and \<open>Rept::exec\<close> drop what the body returns; a further
  round of the loop is a call of \<open>ex\<close> on the same statement.
\<close>

fun Stmt_exec ::
  "(Ctxt \<Rightarrow> evaluator) \<Rightarrow> Stmt executor \<Rightarrow> Blck executor \<Rightarrow> (Ctxt \<Rightarrow> caller) \<Rightarrow>
     Defs \<Rightarrow> Ctxt \<Rightarrow> IO \<Rightarrow> Stmt \<Rightarrow> (Valu option \<times> Ctxt \<times> IO) run" where
  "Stmt_exec ev ex exb call defs ctxt io (Asgn x e) =
     bind_run (ev ctxt io e) (\<lambda>(v, io1). return (None, ctxt(x \<mapsto> v), io1))"
| "Stmt_exec ev ex exb call defs ctxt io (Ntro x ty e) =
     bind_run (ev ctxt io e) (\<lambda>(v, io1). return (None, ctxt(x \<mapsto> v), io1))"
| "Stmt_exec ev ex exb call defs ctxt io Pass = return (None, ctxt, io)"
| "Stmt_exec ev ex exb call defs ctxt io (Prnt expns) =
     (case expns of
        [] \<Rightarrow> return (None, ctxt, put_string [CHR 0x0A] io)
      | e # rest \<Rightarrow>
          bind_run (ev ctxt io e) (\<lambda>(v, io1).
          bind_run (Prnt_exec_loop (ev ctxt) (put_string (to_string v) io1) rest) (\<lambda>io2.
            return (None, ctxt, put_string [CHR 0x0A] io2))))"
| "Stmt_exec ev ex exb call defs ctxt io (Pleq x e) =
     (let val = (case ctxt x of None \<Rightarrow> VInt 0 | Some v \<Rightarrow> v);
          ctxt1 = ctxt(x \<mapsto> val)
      in case val of
           VInt a \<Rightarrow>
             bind_run (ev ctxt1 io e) (\<lambda>(v, io1).
             bind_run (get_int v) (\<lambda>b. return (None, ctxt1(x \<mapsto> VInt (a + b)), io1)))
         | VStr a \<Rightarrow>
             bind_run (ev ctxt1 io e) (\<lambda>(v, io1).
             bind_run (get_string v) (\<lambda>b. return (None, ctxt1(x \<mapsto> VStr (a @ b)), io1)))
         | VBool a \<Rightarrow>
             bind_run (ev ctxt1 io e) (\<lambda>(v, io1).
             bind_run (get_bool v) (\<lambda>b.
               return (None, ctxt1(x \<mapsto> VInt (of_bool a + of_bool b)), io1)))
         | VNone \<Rightarrow> return (None, ctxt1, io))"
| "Stmt_exec ev ex exb call defs ctxt io (Mneq x e) =
     (let val = (case ctxt x of None \<Rightarrow> VInt 0 | Some v \<Rightarrow> v);
          ctxt1 = ctxt(x \<mapsto> val)
      in case val of
           VInt a \<Rightarrow>
             bind_run (ev ctxt1 io e) (\<lambda>(v, io1).
             bind_run (get_int v) (\<lambda>b. return (None, ctxt1(x \<mapsto> VInt (a - b)), io1)))
         | VStr a \<Rightarrow> raise (LogicError ''Cannot subtract strings'')
         | VBool a \<Rightarrow>
             bind_run (ev ctxt1 io e) (\<lambda>(v, io1).
             bind_run (get_bool v) (\<lambda>b.
               return (None, ctxt1(x \<mapsto> VInt (of_bool a - of_bool b)), io1)))
         | VNone \<Rightarrow> return (None, ctxt1, io))"
| "Stmt_exec ev ex exb call defs ctxt io (StIfcd ifcd) = return (None, ctxt, io)"
| "Stmt_exec ev ex exb call defs ctxt io (Cond ifcds els) =
     Cond_exec_loop (ev ctxt) exb ctxt io ifcds els"
| "Stmt_exec ev ex exb call defs ctxt io (StElse (Else b)) = exb ctxt io b"
| "Stmt_exec ev ex exb call defs ctxt io (StElif (Ifcd c b)) =
     bind_run (ev ctxt io c) (\<lambda>(cv, io1).
     bind_run (get_bool cv) (\<lambda>cb.
       if cb then bind_run (ev ctxt io1 c) (\<lambda>(cv2, io2). return (Some cv2, ctxt, io2))
       else exb ctxt io1 b))"
| "Stmt_exec ev ex exb call defs ctxt io (Whil c b) =
     bind_run (ev ctxt io c) (\<lambda>(cv, io1).
     bind_run (get_bool cv) (\<lambda>cb.
       if cb then
         bind_run (exb ctxt io1 b) (\<lambda>(rv, ctxt', io2). ex ctxt' io2 (Whil c b))
       else return (None, ctxt, io1)))"
| "Stmt_exec ev ex exb call defs ctxt io (Rept c b) =
     bind_run (exb ctxt io b) (\<lambda>(rv, ctxt', io1).
     bind_run (ev ctxt' io1 c) (\<lambda>(cv, io2).
     bind_run (get_bool cv) (\<lambda>cb.
       if \<not> cb then ex ctxt' io2 (Rept c b)
       else return (None, ctxt', io2))))"
| "Stmt_exec ev ex exb call defs ctxt io (FRtn expn) =
     (case expn of
        None \<Rightarrow> raise NullDeref
      | Some e \<Rightarrow> bind_run (ev ctxt io e) (\<lambda>(v, io1). return (Some v, ctxt, io1)))"
| "Stmt_exec ev ex exb call defs ctxt io PRtn = return (None, ctxt, io)"
| "Stmt_exec ev ex exb call defs ctxt io (PCll f actuals) =
     (case map_of defs f of
        None \<Rightarrow> raise (LogicError ''Function not found'')
      | Some fn \<Rightarrow>
          bind_run (call ctxt io fn actuals) (\<lambda>(v, io1). return (None, ctxt, io1)))"
| "Stmt_exec ev ex exb call defs ctxt io (StExpn is_statement e) =
     bind_run (ev ctxt io e) (\<lambda>(val, io1).
       if is_statement then return (None, ctxt, io1)
       else bind_run (ev ctxt io1 e) (\<lambda>(v, io2). return (Some v, ctxt, io2)))"

text \<open>
  The recursion is closed over a bound \<open>n\<close> on the depth of nested calls of the four
  methods (a round of a loop counts as a call): with the bound used up the result is
  \<open>None\<close>.
\<close>

function (sequential) eval :: "nat \<Rightarrow> Defs \<Rightarrow> Ctxt \<Rightarrow> IO \<Rightarrow> Expn \<Rightarrow> (Valu \<times> IO) run"
and Defn_exec :: "nat \<Rightarrow> Defs \<Rightarrow> Ctxt \<Rightarrow> IO \<Rightarrow> Defn \<Rightarrow> Expn list \<Rightarrow> (Valu \<times> IO) run"
and exec :: "nat \<Rightarrow> Defs \<Rightarrow> Ctxt \<Rightarrow> IO \<Rightarrow> Stmt \<Rightarrow> (Valu option \<times> Ctxt \<times> IO) run"
and Blck_exec :: "nat \<Rightarrow> Defs \<Rightarrow> Ctxt \<Rightarrow> IO \<Rightarrow> Blck \<Rightarrow> (Valu option \<times> Ctxt \<times> IO) run"
where
  "eval 0 defs ctxt io e = None"
| "eval (Suc n) defs ctxt io e =
     Expn_eval (\<lambda>io' e'. eval n defs ctxt io' e')
       (\<lambda>io' fn vec. Defn_exec n defs ctxt io' fn vec) defs ctxt io e"
| "Defn_exec 0 defs ctxt io fn vec = None"
| "Defn_exec (Suc n) defs ctxt io fn vec =
     Defn_exec_body (\<lambda>io' e'. eval n defs ctxt io' e')
       (\<lambda>ctxt' io' b. Blck_exec n defs ctxt' io' b) ctxt io fn vec"
| "exec 0 defs ctxt io s = None"
| "exec (Suc n) defs ctxt io s =
     Stmt_exec (\<lambda>ctxt' io' e'. eval n defs ctxt' io' e')
       (\<lambda>ctxt' io' s'. exec n defs ctxt' io' s')
       (\<lambda>ctxt' io' b. Blck_exec n defs ctxt' io' b)
       (\<lambda>ctxt' io' fn vec. Defn_exec n defs ctxt' io' fn vec) defs ctxt io s"
| "Blck_exec 0 defs ctxt io b = None"
| "Blck_exec (Suc n) defs ctxt io (Blck stmts) =
     Blck_exec_loop (\<lambda>ctxt' io' s'. exec n defs ctxt' io' s') ctxt io stmts"
  by pat_completeness auto

termination
  by (relation "measure (case_sum (case_sum fst fst) (case_sum fst fst))") auto

text \<open>\<open>Prgm::run()\<close> executes the main script in an empty context.\<close>

fun Prgm_run :: "nat \<Rightarrow> Prgm \<Rightarrow> IO \<Rightarrow> IO run" where
  "Prgm_run n (Prgm defs main_blck main_symt) io =
     (case main_blck of
        None \<Rightarrow> return io
      | Some blck \<Rightarrow>
          bind_run (Blck_exec n defs Map.empty io blck) (\<lambda>(rv, ctxt, io'). return io'))"

section \<open>The loop rule in the words of the specification\<close>

text \<open>
  The specification gives one merge rule for both loops: the condition must
  type-check to \<open>Bool\<close>; if the body is \<open>Void\<close> the loop's behaviour is \<open>Void\<close>;
  otherwise (the body is \<open>Type T\<close> or \<open>VoidOr T\<close>) the loop's behaviour is \<open>VoidOr T\<close>.
  \<open>loop_merge_spec\<close> is this rule, written from the specification and not from the
  source, as a function of the outcome of checking the condition and of checking the
  body; \<open>not_bool\<close> is the error for a condition of another type.
\<close>

definition loop_merge_spec ::
  "(Type \<Rightarrow> error) \<Rightarrow> error + Type \<Rightarrow> error + Rtns \<times> SymT \<Rightarrow> error + Rtns \<times> SymT" where
  "loop_merge_spec not_bool cond_chck body_chck =
     (case cond_chck of
        Inl err \<Rightarrow> Inl err
      | Inr cond_tp \<Rightarrow>
          if cond_tp \<noteq> BoolTy then Inl (not_bool cond_tp)
          else
            (case body_chck of
               Inl err \<Rightarrow> Inl err
             | Inr (Void, symt') \<Rightarrow> Inr (Void, symt')
             | Inr (RType T, symt') \<Rightarrow> Inr (VoidOr T, symt')
             | Inr (VoidOr T, symt') \<Rightarrow> Inr (VoidOr T, symt')))"

section \<open>Properties of the checker and the interpreter\<close>

subsection \<open>Scope restoration\<close>

text \<open>
  A statement only changes the innermost frame of the symbol table, and a block, which
  marks the table before its first statement and pops the mark after the last one,
  leaves the table as it found it. This is why \<open>Defn::chck\<close> can hand its own table
  \<open>args\<close> to the check of its body, and why, in the model, the table that comes out of
  a checked definition need not be stored.
\<close>

lemma Cond_elif_loop_scope:
  assumes "\<And>s r s'. chck0 s = Inr (r, s') \<Longrightarrow> s' = s"
  shows "Cond_elif_loop chck0 tp v hv i rest rp symt = Inr (r, symt') \<Longrightarrow> symt' = symt"
proof (induction rest arbitrary: i rp symt)
  case Nil
  then show ?case by simp
next
  case (Cons a rest)
  from Cons.prems obtain r1 s1 rp' where
    c: "chck0 symt = Inr (r1, s1)"
    and l: "Cond_elif_loop chck0 tp v hv (Suc i) rest rp' s1 = Inr (r, symt')"
    by (auto split: sum.splits prod.splits)
  from Cons.IH[OF l] assms[OF c] show ?case by simp
qed

lemma pop_until_mark_restores:
  assumes "frmls s1 = frmls symt" and "tl (frames s1) = frames symt" and "frames s1 \<noteq> []"
  shows "pop_until_mark s1 = Inr symt"
proof (cases "frames s1")
  case Nil
  with assms show ?thesis by simp
next
  case (Cons f fs)
  with assms have "s1\<lparr>frames := fs\<rparr> = symt" by (intro SymT.equality) simp_all
  with Cons show ?thesis by (simp add: pop_until_mark_def)
qed

lemma add_locl_scope:
  "frames symt \<noteq> [] \<Longrightarrow>
     frmls (add_locl symt x ty) = frmls symt \<and>
     tl (frames (add_locl symt x ty)) = tl (frames symt) \<and>
     frames (add_locl symt x ty) \<noteq> []"
  by (cases "frames symt") (simp_all add: add_locl_def)

lemma chck_scope:
  shows "chck_stmt expd defs symt s = Inr (r, symt') \<Longrightarrow> frames symt \<noteq> [] \<Longrightarrow>
           frmls symt' = frmls symt \<and> tl (frames symt') = tl (frames symt) \<and> frames symt' \<noteq> []"
    and "Blck_chck_loop expd defs symt rtns stmts = Inr (r, symt') \<Longrightarrow> frames symt \<noteq> [] \<Longrightarrow>
           frmls symt' = frmls symt \<and> tl (frames symt') = tl (frames symt) \<and> frames symt' \<noteq> []"
    and "chck_blck expd defs symt b = Inr (r, symt') \<Longrightarrow> symt' = symt"
proof (induction expd defs symt s and expd defs symt rtns stmts and expd defs symt b
       arbitrary: r symt' and r symt' and r symt'
       rule: chck_stmt_Blck_chck_loop_chck_blck.induct)
  case (1 expd defs symt stmts)
  from "1.prems" obtain s1 where
    l: "Blck_chck_loop expd defs (mark symt) Void stmts = Inr (r, s1)"
    and p: "pop_until_mark s1 = Inr symt'"
    by (auto split: sum.splits prod.splits)
  have "frames (mark symt) \<noteq> []" by (simp add: mark_def)
  from "1.IH"[OF l this]
  have "frmls s1 = frmls symt" "tl (frames s1) = frames symt" "frames s1 \<noteq> []"
    by (simp_all add: mark_def)
  from pop_until_mark_restores[OF this] p show ?case by simp
next
  case (2 expd defs symt rtns)
  then show ?case by simp
next
  case (3 expd defs symt rtns stmt rest)
  from "3.prems"(1) obtain sr s1 where
    st: "chck_stmt expd defs symt stmt = Inr (sr, s1)"
    by (auto split: sum.splits prod.splits)
  from "3.IH"(1)[OF st "3.prems"(2)]
  have s1: "frmls s1 = frmls symt" "tl (frames s1) = tl (frames symt)" and ne: "frames s1 \<noteq> []"
    by simp_all
  show ?case
  proof (cases sr)
    case Void
    with "3.prems"(1) st have "Blck_chck_loop expd defs s1 rtns rest = Inr (r, symt')" by simp
    from "3.IH"(2)[OF st refl Void this ne] s1 show ?thesis by simp
  next
    case (VoidOr ty)
    show ?thesis
    proof (cases "rtns = Void")
      case True
      with "3.prems"(1) st VoidOr have "Blck_chck_loop expd defs s1 sr rest = Inr (r, symt')" by simp
      from "3.IH"(3)[OF st refl VoidOr True this ne] s1 show ?thesis by simp
    next
      case False
      with "3.prems"(1) st VoidOr have eq: "\<not> type_of rtns \<noteq> type_of sr"
        and "Blck_chck_loop expd defs s1 rtns rest = Inr (r, symt')"
        by (auto split: if_splits)
      from "3.IH"(4)[OF st refl VoidOr False eq this(2) ne] s1 show ?thesis by simp
    qed
  next
    case (RType ty)
    with "3.prems"(1) st have "symt' = s1" by (auto split: if_splits)
    with s1 ne show ?thesis by simp
  qed
next
  case (7 expd defs symt x ty e)
  then show ?case
    by (auto simp: add_locl_scope split: if_splits sum.splits)
next
  case (16 expd defs symt c0 b0 rest els)
  from "16.prems"(1) obtain u rp s1 rp2 s2 eb br s3 where
    c: "Cond_chck_conds defs symt 0 (Ifcd c0 b0 # rest) = Inr u"
    and b0: "chck_blck expd defs symt b0 = Inr (rp, s1)"
    and lp: "Cond_elif_loop (\<lambda>s. chck_blck expd defs s b0) (type_of rp) (rp = Void) (has_void rp) 1 rest rp s1 = Inr (rp2, s2)"
    and els: "els = Some (Else eb)"
    and eb: "chck_blck expd defs s2 eb = Inr (br, s3)"
    and s3: "symt' = s3"
    by (auto simp: Let_def split: sum.splits prod.splits option.splits Else.splits)
  have 1: "s1 = symt" using "16.IH"(1)[OF c b0] .
  have "\<And>s r s'. chck_blck expd defs s b0 = Inr (r, s') \<Longrightarrow> s' = s"
    using "16.IH"(2)[OF c b0 refl refl refl refl] by blast
  from Cond_elif_loop_scope[of "\<lambda>s. chck_blck expd defs s b0", OF this lp]
  have 2: "s2 = s1" .
  have 3: "s3 = s2" using "16.IH"(3)[OF c b0 refl refl refl refl lp refl els refl eb] .
  from 1 2 3 s3 "16.prems"(2) show ?case by simp
qed (auto simp: Let_def split: if_splits sum.splits option.splits prod.splits)

lemma Blck_chck_loop_pops:
  assumes "Blck_chck_loop expd defs symt a post = Inr (r, s)"
    and "frmls symt = frmls symt0" and "tl (frames symt) = frames symt0" and "frames symt \<noteq> []"
  shows "pop_until_mark s = Inr symt0"
proof -
  from chck_scope(2)[OF assms(1) assms(4)] assms(2,3)
  have "frmls s = frmls symt0" "tl (frames s) = frames symt0" "frames s \<noteq> []" by simp_all
  then show ?thesis by (rule pop_until_mark_restores)
qed

subsection \<open>Return behaviours carry the expected type\<close>

text \<open>
  Every behaviour other than \<open>Void\<close> that a statement or a block is given by the
  checker carries the type of the expected behaviour \<open>expd\<close>: \<open>FRtn::chck\<close> and
  \<open>PRtn::chck\<close> return \<open>type_of(expd)\<close>, and loops, conditionals and blocks only
  pass on the types of their parts. The loop of \<open>Blck::chck\<close> over a list of statements
  that ends with a behaviour other than \<open>Type\<close> has gone through the whole list, so
  it goes on with the statements that follow.
\<close>

lemma Cond_merge_type:
  assumes "Cond_merge tp v hv m rp brt = Inr r"
    and "rp = Void \<or> type_of rp = T" and "\<not> v \<longrightarrow> rp \<noteq> Void"
    and "brt = Void \<or> type_of brt = T"
  shows "(r = Void \<or> type_of r = T) \<and> (\<not> v \<longrightarrow> r \<noteq> Void)"
  using assms by (auto simp: Cond_merge_def Let_def split: if_splits)

lemma Cond_elif_loop_type:
  assumes "\<And>s r s'. chck0 s = Inr (r, s') \<Longrightarrow> r = Void \<or> type_of r = T"
  shows "Cond_elif_loop chck0 tp v hv i rest rp symt = Inr (r, symt') \<Longrightarrow>
         rp = Void \<or> type_of rp = T \<Longrightarrow> \<not> v \<longrightarrow> rp \<noteq> Void \<Longrightarrow>
         (r = Void \<or> type_of r = T) \<and> (\<not> v \<longrightarrow> r \<noteq> Void)"
proof (induction rest arbitrary: i rp symt)
  case Nil
  then show ?case by simp
next
  case (Cons a rest)
  from Cons.prems(1) obtain r1 s1 rp' where
    c: "chck0 symt = Inr (r1, s1)"
    and m: "Cond_merge tp v hv (IfReturnMismatch i) rp r1 = Inr rp'"
    and l: "Cond_elif_loop chck0 tp v hv (Suc i) rest rp' s1 = Inr (r, symt')"
    by (auto split: sum.splits prod.splits)
  from Cond_merge_type[OF m Cons.prems(2) Cons.prems(3) assms[OF c]]
  have "rp' = Void \<or> type_of rp' = T" "\<not> v \<longrightarrow> rp' \<noteq> Void" by simp_all
  from Cons.IH[OF l this] show ?case .
qed

lemma chck_type:
  shows "chck_stmt expd defs symt s = Inr (r, symt') \<Longrightarrow> r = Void \<or> type_of r = type_of expd"
    and "Blck_chck_loop expd defs symt rtns stmts = Inr (r, symt') \<Longrightarrow>
           rtns = Void \<or> type_of rtns = type_of expd \<Longrightarrow> r = Void \<or> type_of r = type_of expd"
    and "chck_blck expd defs symt b = Inr (r, symt') \<Longrightarrow> r = Void \<or> type_of r = type_of expd"
proof (induction expd defs symt s and expd defs symt rtns stmts and expd defs symt b
       arbitrary: r symt' and r symt' and r symt'
       rule: chck_stmt_Blck_chck_loop_chck_blck.induct)
  case (1 expd defs symt stmts)
  from "1.prems" obtain s1 where
    l: "Blck_chck_loop expd defs (mark symt) Void stmts = Inr (r, s1)"
    by (auto split: sum.splits prod.splits)
  from "1.IH"[OF l] show ?case by simp
next
  case (2 expd defs symt rtns)
  then show ?case by simp
next
  case (3 expd defs symt rtns stmt rest)
  from "3.prems"(1) obtain sr s1 where
    st: "chck_stmt expd defs symt stmt = Inr (sr, s1)"
    by (auto split: sum.splits prod.splits)
  from "3.IH"(1)[OF st] have sr: "sr = Void \<or> type_of sr = type_of expd" .
  show ?case
  proof (cases sr)
    case Void
    with "3.prems"(1) st have "Blck_chck_loop expd defs s1 rtns rest = Inr (r, symt')" by simp
    from "3.IH"(2)[OF st refl Void this "3.prems"(2)] show ?thesis .
  next
    case (VoidOr ty)
    show ?thesis
    proof (cases "rtns = Void")
      case True
      with "3.prems"(1) st VoidOr have "Blck_chck_loop expd defs s1 sr rest = Inr (r, symt')" by simp
      from "3.IH"(3)[OF st refl VoidOr True this sr] show ?thesis .
    next
      case False
      with "3.prems"(1) st VoidOr have eq: "\<not> type_of rtns \<noteq> type_of sr"
        and "Blck_chck_loop expd defs s1 rtns rest = Inr (r, symt')"
        by (auto split: if_splits)
      from "3.IH"(4)[OF st refl VoidOr False eq this(2) "3.prems"(2)] show ?thesis .
    qed
  next
    case (RType ty)
    with "3.prems"(1) st have "r = sr" by (auto split: if_splits)
    with sr show ?thesis by simp
  qed
next
  case (16 expd defs symt c0 b0 rest els)
  from "16.prems"(1) obtain u rp s1 rp2 s2 eb br s3 where
    c: "Cond_chck_conds defs symt 0 (Ifcd c0 b0 # rest) = Inr u"
    and b0: "chck_blck expd defs symt b0 = Inr (rp, s1)"
    and lp: "Cond_elif_loop (\<lambda>s. chck_blck expd defs s b0) (type_of rp) (rp = Void) (has_void rp) 1 rest rp s1 = Inr (rp2, s2)"
    and els: "els = Some (Else eb)"
    and eb: "chck_blck expd defs s2 eb = Inr (br, s3)"
    and m: "Cond_merge (type_of rp) (rp = Void) (has_void rp) ElseReturnMismatch rp2 br = Inr r"
    by (auto simp: Let_def split: sum.splits prod.splits option.splits Else.splits)
  have 1: "rp = Void \<or> type_of rp = type_of expd" using "16.IH"(1)[OF c b0] .
  have "\<And>s r s'. chck_blck expd defs s b0 = Inr (r, s') \<Longrightarrow> r = Void \<or> type_of r = type_of expd"
    using "16.IH"(2)[OF c b0 refl refl refl refl] by blast
  from Cond_elif_loop_type[of "\<lambda>s. chck_blck expd defs s b0", OF this lp 1]
  have 2: "rp2 = Void \<or> type_of rp2 = type_of expd" "\<not> rp = Void \<longrightarrow> rp2 \<noteq> Void" by simp_all
  have 3: "br = Void \<or> type_of br = type_of expd"
    using "16.IH"(3)[OF c b0 refl refl refl refl lp refl els refl eb] .
  from Cond_merge_type[OF m 2 3] show ?case by simp
next
  case (17 expd defs symt c b)
  from "17.prems" obtain bt where
    c: "chck_expn defs symt c = Inr BoolTy"
    and b: "chck_blck expd defs symt b = Inr (bt, symt')"
    and r: "r = (if bt = Void then Void else VoidOr (type_of bt))"
    by (auto split: sum.splits prod.splits if_splits)
  from "17.IH"[OF c _ b] r show ?case by auto
next
  case (18 expd defs symt c b)
  from "18.prems" obtain bt where
    c: "chck_expn defs symt c = Inr BoolTy"
    and b: "chck_blck expd defs symt b = Inr (bt, symt')"
    and r: "r = (if bt = Void then Void else VoidOr (type_of bt))"
    by (auto split: sum.splits prod.splits if_splits)
  from "18.IH"[OF c _ b] r show ?case by auto
qed (auto simp: Let_def split: if_splits sum.splits option.splits prod.splits)

lemma Blck_chck_loop_append:
  "Blck_chck_loop expd defs symt rtns pre = Inr (acc, symt1) \<Longrightarrow> \<forall>T. acc \<noteq> RType T \<Longrightarrow>
     Blck_chck_loop expd defs symt rtns (pre @ rest) = Blck_chck_loop expd defs symt1 acc rest"
proof (induction pre arbitrary: symt rtns)
  case Nil
  then show ?case by simp
next
  case (Cons s pre)
  from Cons.prems(1) obtain sr s1 where
    st: "chck_stmt expd defs symt s = Inr (sr, s1)"
    by (auto split: sum.splits prod.splits)
  show ?case
  proof (cases sr)
    case Void
    with Cons.prems(1) st have "Blck_chck_loop expd defs s1 rtns pre = Inr (acc, symt1)" by simp
    from Cons.IH[OF this Cons.prems(2)] st Void show ?thesis by simp
  next
    case (VoidOr ty)
    show ?thesis
    proof (cases "rtns = Void")
      case True
      with Cons.prems(1) st VoidOr have "Blck_chck_loop expd defs s1 sr pre = Inr (acc, symt1)" by simp
      from Cons.IH[OF this Cons.prems(2)] st VoidOr True show ?thesis by simp
    next
      case False
      with Cons.prems(1) st VoidOr have eq: "type_of rtns = type_of sr"
        and "Blck_chck_loop expd defs s1 rtns pre = Inr (acc, symt1)"
        by (auto split: if_splits)
      from Cons.IH[OF this(2) Cons.prems(2)] st VoidOr False eq show ?thesis by simp
    qed
  next
    case (RType ty)
    with Cons.prems(1) st have "acc = sr" by (auto split: if_splits)
    with RType Cons.prems(2) show ?thesis by simp
  qed
qed

subsection \<open>Conditionals\<close>

lemma Cond_chck_conds_bodies:
  "Cond_chck_conds defs symt i (map (\<lambda>a. case a of Ifcd c b \<Rightarrow> Ifcd c b') rest)
     = Cond_chck_conds defs symt i rest"
proof (induction rest arbitrary: i)
  case Nil
  then show ?case by simp
next
  case (Cons a rest)
  then show ?case by (cases a) (simp split: sum.splits)
qed

lemma Cond_elif_loop_bodies:
  "Cond_elif_loop chck0 tp v hv i (map f rest) rp symt
     = Cond_elif_loop chck0 tp v hv i rest rp symt"
  by (induction rest arbitrary: i rp symt) (auto split: sum.splits prod.splits)

text \<open>
  C2: \<open>Cond::chck\<close> is claimed to check the body of every arm, so that an ill-typed
  statement in the body of an \<open>elif\<close> arm raises a semantic error. The loop over the
  \<open>elif\<close> arms checks \<open>ifcds[0]->body\<close> in every round: the conditional below, whose
  \<open>elif\<close> body prints \<open>1 - "a"\<close>, is accepted with behaviour \<open>Void\<close>, although the
  check of that body on its own raises the error for the operands of minus. In
  general, putting any block \<open>b'\<close> in the place of the body of every \<open>elif\<close> arm leaves
  the outcome of \<open>Cond::chck\<close> as it is.
\<close>

theorem Cond_chck_skips_elif_body:
  "chck_stmt expd defs symt (Cond
       [Ifcd (Ltrl (VBool False)) (Blck [Pass]),
        Ifcd (Ltrl (VBool True)) (Blck [Prnt [Mnus (Ltrl (VInt 1)) (Ltrl (VStr ''a''))]])]
       (Some (Else (Blck [Pass])))) = Inr (Void, symt)
   \<and> chck_blck expd defs symt (Blck [Prnt [Mnus (Ltrl (VInt 1)) (Ltrl (VStr ''a''))]])
       = Inl (WrongOperandTypes ''minus'')
   \<and> chck_stmt expd defs symt
        (Cond (Ifcd c0 b0 # map (\<lambda>a. case a of Ifcd c b \<Rightarrow> Ifcd c b') rest) els)
       = chck_stmt expd defs symt (Cond (Ifcd c0 b0 # rest) els)"
proof (intro conjI)
  show "chck_stmt expd defs symt (Cond
       [Ifcd (Ltrl (VBool False)) (Blck [Pass]),
        Ifcd (Ltrl (VBool True)) (Blck [Prnt [Mnus (Ltrl (VInt 1)) (Ltrl (VStr ''a''))]])]
       (Some (Else (Blck [Pass])))) = Inr (Void, symt)"
    by (simp add: mark_def pop_until_mark_def Cond_merge_def)
next
  show "chck_blck expd defs symt (Blck [Prnt [Mnus (Ltrl (VInt 1)) (Ltrl (VStr ''a''))]])
       = Inl (WrongOperandTypes ''minus'')"
    by (simp add: mark_def chck_bin_def int_int_def)
next
  have conds: "Cond_chck_conds defs symt 0
        (Ifcd c0 b0 # map (\<lambda>a. case a of Ifcd c b \<Rightarrow> Ifcd c b') rest)
      = Cond_chck_conds defs symt 0 (Ifcd c0 b0 # rest)"
    by (simp add: Cond_chck_conds_bodies split: sum.splits)
  show "chck_stmt expd defs symt
        (Cond (Ifcd c0 b0 # map (\<lambda>a. case a of Ifcd c b \<Rightarrow> Ifcd c b') rest) els)
       = chck_stmt expd defs symt (Cond (Ifcd c0 b0 # rest) els)"
    unfolding chck_stmt.simps conds Cond_elif_loop_bodies by (rule refl)
qed

text \<open>
  C4: a conditional built without an \<open>else\<close> is claimed to be checked as if it had an
  empty \<open>Void\<close> arm. \<open>Cond::chck\<close> dereferences \<open>els\<close> without the test for null that
  \<open>Cond::exec\<close> makes: no conditional with \<open>els = nullptr\<close> is checked without an
  error or the fault, and \<open>if True: pass\<close> ends in the fault.
\<close>

theorem Cond_chck_no_else_faults:
  "isl (chck_stmt expd defs symt (Cond ifcds None))
   \<and> chck_stmt expd defs symt (Cond [Ifcd (Ltrl (VBool True)) (Blck [Pass])] None)
       = Inl NullDeref"
proof
  show "isl (chck_stmt expd defs symt (Cond ifcds None))"
  proof (cases ifcds)
    case Nil
    then show ?thesis by simp
  next
    case (Cons a rest)
    obtain c0 b0 where a: "a = Ifcd c0 b0" by (cases a)
    show ?thesis unfolding Cons a
      by (simp add: Let_def split: sum.split prod.split)
  qed
next
  show "chck_stmt expd defs symt (Cond [Ifcd (Ltrl (VBool True)) (Blck [Pass])] None)
      = Inl NullDeref"
    by (simp add: mark_def pop_until_mark_def)
qed

subsection \<open>The main script\<close>

text \<open>
  C3: a script whose block has a return behaviour other than \<open>Void\<close> is claimed to be
  rejected by \<open>Prgm::chck\<close> with a thrown error. The script \<open>return None\<close> has the
  behaviour \<open>Type None\<close> and \<open>Prgm::chck\<close> returns normally.
\<close>

theorem Prgm_chck_accepts_returning_script:
  "chck_blck Void [] main_symt (Blck [FRtn (Some (Ltrl VNone))])
     = Inr (RType NoneTy, main_symt)
   \<and> Prgm_chck (Prgm [] (Some (Blck [FRtn (Some (Ltrl VNone))])) main_symt) = Inr ()"
  by (simp add: mark_def pop_until_mark_def)

subsection \<open>Int conversion\<close>

text \<open>
  C5: \<open>IntC::chck\<close> is claimed to return \<open>int\<close> for an operand of type \<open>str\<close> or \<open>int\<close>
  and to raise exactly for \<open>bool\<close> and \<open>None\<close>. The test
  \<open>!is_str(expr_ty) || !is_int(expr_ty)\<close> holds for every type: \<open>IntC::chck\<close> never
  returns a type, and raises its own error for an \<open>int\<close> and for a \<open>str\<close> literal.
\<close>

theorem IntC_chck_always_raises:
  "isl (chck_expn defs symt (IntC e))
   \<and> chck_expn defs symt (IntC (Ltrl (VInt 1))) = Inl IntCRequiresStrOrInt
   \<and> chck_expn defs symt (IntC (Ltrl (VStr ''1''))) = Inl IntCRequiresStrOrInt"
  by (simp split: sum.split)

subsection \<open>Checked programs at run time\<close>

text \<open>
  C1: a program accepted by \<open>Prgm::chck\<close> is claimed never to raise a wrong-operand-type
  error when run. The script
  \<open>if False: pass elif True: print(1 - "a") else: pass\<close>
  is accepted, since the body of the \<open>elif\<close> arm is never checked, and its run raises
  the run-time error of \<open>Mnus::eval\<close>, whatever the console holds and however large
  the bound on the depth of the run is (from 7 on).
\<close>

theorem checked_program_raises_wrong_operand:
  "Prgm_chck (Prgm [] (Some (Blck [Cond
       [Ifcd (Ltrl (VBool False)) (Blck [Pass]),
        Ifcd (Ltrl (VBool True)) (Blck [Prnt [Mnus (Ltrl (VInt 1)) (Ltrl (VStr ''a''))]])]
       (Some (Else (Blck [Pass])))])) main_symt) = Inr ()
   \<and> Prgm_run (7 + n) (Prgm [] (Some (Blck [Cond
       [Ifcd (Ltrl (VBool False)) (Blck [Pass]),
        Ifcd (Ltrl (VBool True)) (Blck [Prnt [Mnus (Ltrl (VInt 1)) (Ltrl (VStr ''a''))]])]
       (Some (Else (Blck [Pass])))])) main_symt) io
       = Some (Inl (RtWrongOperandType ''minus''))"
  by (simp add: mark_def pop_until_mark_def Cond_merge_def eval_bin_def bind_run_def
      return_def raise_def numeral_eq_Suc)

subsection \<open>Function definitions\<close>

text \<open>
  C6: \<open>Defn::chck\<close> is claimed to accept exactly the bodies whose behaviour is the
  declared type, to raise "never returns" for \<open>Void\<close>, "might not return" for
  \<open>VoidOr\<close> and a mismatch error for another type, and in particular to reject
  \<open>def g(x: int) -> int: if x > 0: return x\<close> with the might-not-return error. The rule
  on the behaviour of the body is the one of the source (first part below). The
  function \<open>g\<close>, whose \<open>if\<close> has no \<open>else\<close>, never gets as far: the check of its body
  ends in the fault of \<open>Cond::chck\<close> on \<open>els = nullptr\<close>. With \<open>else: pass\<close> added,
  \<open>g\<close> is rejected with the might-not-return error.
\<close>

theorem Defn_chck_if_without_else:
  "Defn_chck defs fn =
     (case chck_blck (RType (ret_type fn)) defs (args fn) (body fn) of
        Inl err \<Rightarrow> Inl err
      | Inr (Void, symt') \<Rightarrow> Inl BodyNeverReturns
      | Inr (VoidOr T, symt') \<Rightarrow> Inl BodyMightNotReturn
      | Inr (RType T, symt') \<Rightarrow>
          if T = ret_type fn then Inr () else Inl (BodyReturnsWrong T (ret_type fn)))
   \<and> Defn_chck defs
        \<lparr>name = ''g'', args = \<lparr>frmls = [(''x'', IntTy)], frames = []\<rparr>,
         body = Blck [Cond [Ifcd (Cmgt (Lkup ''x'') (Ltrl (VInt 0)))
                              (Blck [FRtn (Some (Lkup ''x''))])] None],
         ret_type = IntTy\<rparr>
     = Inl NullDeref
   \<and> Defn_chck defs
        \<lparr>name = ''g'', args = \<lparr>frmls = [(''x'', IntTy)], frames = []\<rparr>,
         body = Blck [Cond [Ifcd (Cmgt (Lkup ''x'') (Ltrl (VInt 0)))
                              (Blck [FRtn (Some (Lkup ''x''))])] (Some (Else (Blck [Pass])))],
         ret_type = IntTy\<rparr>
     = Inl BodyMightNotReturn"
  by (auto simp: Defn_chck_def mark_def pop_until_mark_def has_info_def get_info_def
      chck_bin_def int_int_def Cond_merge_def
      split: sum.splits prod.splits Rtns.splits)

subsection \<open>Blocks\<close>

text \<open>
  C7: \<open>Blck::chck\<close> folds the behaviours of the statements from left to right. Let
  the statements \<open>pre\<close> of a block be checked, from the accumulator \<open>Void\<close> in the
  freshly marked table, with none of them always returning (\<open>acc\<close> is not a \<open>Type\<close>),
  and let the next statement be checked with behaviour \<open>stmt_rtns\<close>. If this is
  \<open>Type T\<close>, the block's behaviour is \<open>Type T\<close> whatever statements \<open>post\<close> follow
  (they are not even checked); if it is \<open>VoidOr T\<close>, the fold goes on with the
  accumulator \<open>VoidOr T\<close>; if it is \<open>Void\<close>, it goes on with the accumulator unchanged;
  what the fold ends with is the block's behaviour, in the table as it was before the
  block. The empty block is \<open>Void\<close>. The loop raises "might return different types"
  for a \<open>VoidOr T\<close> statement met with an accumulator \<open>VoidOr T'\<close> of another type.
  Inside a block the accumulator and the behaviour of a statement both carry the type
  of the expected behaviour, so that neither this error nor the one that the source
  raises for a \<open>Type\<close> statement against an accumulator of another type ("Statement
  returns ... but previous statement returns ...") stands in the way of the first
  part.
\<close>

theorem Blck_chck_sequential_merge:
  "(Blck_chck_loop expd defs (mark symt0) Void pre = Inr (acc, symt) \<and> (\<forall>T. acc \<noteq> RType T) \<and>
      chck_stmt expd defs symt stmt = Inr (stmt_rtns, symt') \<longrightarrow>
    chck_blck expd defs symt0 (Blck (pre @ stmt # post)) =
      (case stmt_rtns of
         RType T \<Rightarrow> Inr (RType T, symt0)
       | VoidOr T \<Rightarrow>
           (case Blck_chck_loop expd defs symt' (VoidOr T) post of
              Inl err \<Rightarrow> Inl err
            | Inr (rtns, s) \<Rightarrow> Inr (rtns, symt0))
       | Void \<Rightarrow>
           (case Blck_chck_loop expd defs symt' acc post of
              Inl err \<Rightarrow> Inl err
            | Inr (rtns, s) \<Rightarrow> Inr (rtns, symt0))))
   \<and> chck_blck expd defs symt0 (Blck []) = Inr (Void, symt0)
   \<and> (chck_stmt expd defs symt stmt = Inr (VoidOr T, symt') \<and> T' \<noteq> T \<longrightarrow>
        Blck_chck_loop expd defs symt (VoidOr T') (stmt # post) = Inl MightReturnDifferent)"
proof (intro conjI impI)
  assume h: "Blck_chck_loop expd defs (mark symt0) Void pre = Inr (acc, symt) \<and>
      (\<forall>T. acc \<noteq> RType T) \<and> chck_stmt expd defs symt stmt = Inr (stmt_rtns, symt')"
  then have pre: "Blck_chck_loop expd defs (mark symt0) Void pre = Inr (acc, symt)"
    and acc: "\<forall>T. acc \<noteq> RType T"
    and stmt: "chck_stmt expd defs symt stmt = Inr (stmt_rtns, symt')"
    by simp_all
  have m: "frames (mark symt0) \<noteq> []" by (simp add: mark_def)
  from chck_scope(2)[OF pre m]
  have sc: "frmls symt = frmls symt0" "tl (frames symt) = frames symt0" "frames symt \<noteq> []"
    by (simp_all add: mark_def)
  from chck_scope(1)[OF stmt sc(3)] sc
  have sc': "frmls symt' = frmls symt0" "tl (frames symt') = frames symt0" "frames symt' \<noteq> []"
    by simp_all
  from chck_type(2)[OF pre] have ta: "acc = Void \<or> type_of acc = type_of expd" by simp
  from chck_type(1)[OF stmt] have ts: "stmt_rtns = Void \<or> type_of stmt_rtns = type_of expd" .
  have ap: "Blck_chck_loop expd defs (mark symt0) Void (pre @ stmt # post)
      = Blck_chck_loop expd defs symt acc (stmt # post)"
    by (rule Blck_chck_loop_append[OF pre acc])
  have fin: "\<And>a r s. Blck_chck_loop expd defs symt' a post = Inr (r, s) \<Longrightarrow>
      pop_until_mark s = Inr symt0"
    by (rule Blck_chck_loop_pops[OF _ sc'])
  show "chck_blck expd defs symt0 (Blck (pre @ stmt # post)) =
      (case stmt_rtns of
         RType T \<Rightarrow> Inr (RType T, symt0)
       | VoidOr T \<Rightarrow>
           (case Blck_chck_loop expd defs symt' (VoidOr T) post of
              Inl err \<Rightarrow> Inl err
            | Inr (rtns, s) \<Rightarrow> Inr (rtns, symt0))
       | Void \<Rightarrow>
           (case Blck_chck_loop expd defs symt' acc post of
              Inl err \<Rightarrow> Inl err
            | Inr (rtns, s) \<Rightarrow> Inr (rtns, symt0)))"
  proof (cases stmt_rtns)
    case Void
    then show ?thesis using ap stmt fin
      by (auto split: sum.splits prod.splits)
  next
    case (VoidOr T)
    with acc ta ts have "acc = Void \<or> acc = VoidOr T" by (cases acc) auto
    then show ?thesis using ap stmt fin VoidOr
      by (auto split: sum.splits prod.splits)
  next
    case (RType T)
    with ta ts have "\<not> (acc \<noteq> Void \<and> type_of acc \<noteq> type_of stmt_rtns)" by auto
    moreover have "pop_until_mark symt' = Inr symt0" using sc' by (rule pop_until_mark_restores)
    ultimately show ?thesis using ap stmt RType by simp
  qed
next
  show "chck_blck expd defs symt0 (Blck []) = Inr (Void, symt0)"
    by (simp add: mark_def pop_until_mark_def)
next
  assume "chck_stmt expd defs symt stmt = Inr (VoidOr T, symt') \<and> T' \<noteq> T"
  then show "Blck_chck_loop expd defs symt (VoidOr T') (stmt # post) = Inl MightReturnDifferent"
    by simp
qed

text \<open>
  The hypotheses hold for the body \<open>while True: return 1\<close>, \<open>return 2\<close>,
  \<open>print(1 - "a")\<close> of a function returning \<open>int\<close>: the block is \<open>Type int\<close> and the
  ill-typed last statement does not matter. The loop started on the accumulator
  \<open>VoidOr str\<close> raises the error on \<open>while True: return 1\<close>.
\<close>

theorem Blck_chck_sequential_merge_witness:
  "Blck_chck_loop (RType IntTy) [] (mark \<lparr>frmls = [], frames = []\<rparr>) Void
       [Whil (Ltrl (VBool True)) (Blck [FRtn (Some (Ltrl (VInt 1)))])]
     = Inr (VoidOr IntTy, \<lparr>frmls = [], frames = [[]]\<rparr>)
   \<and> (\<forall>T. VoidOr IntTy \<noteq> RType T)
   \<and> chck_stmt (RType IntTy) [] \<lparr>frmls = [], frames = [[]]\<rparr> (FRtn (Some (Ltrl (VInt 2))))
     = Inr (RType IntTy, \<lparr>frmls = [], frames = [[]]\<rparr>)
   \<and> chck_blck (RType IntTy) [] \<lparr>frmls = [], frames = []\<rparr>
       (Blck ([Whil (Ltrl (VBool True)) (Blck [FRtn (Some (Ltrl (VInt 1)))])]
              @ FRtn (Some (Ltrl (VInt 2))) # [Prnt [Mnus (Ltrl (VInt 1)) (Ltrl (VStr ''a''))]]))
     = Inr (RType IntTy, \<lparr>frmls = [], frames = []\<rparr>)
   \<and> chck_stmt (RType IntTy) [] \<lparr>frmls = [], frames = [[]]\<rparr>
       (Whil (Ltrl (VBool True)) (Blck [FRtn (Some (Ltrl (VInt 1)))]))
     = Inr (VoidOr IntTy, \<lparr>frmls = [], frames = [[]]\<rparr>)
   \<and> StrTy \<noteq> IntTy
   \<and> Blck_chck_loop (RType IntTy) [] \<lparr>frmls = [], frames = [[]]\<rparr> (VoidOr StrTy)
       (Whil (Ltrl (VBool True)) (Blck [FRtn (Some (Ltrl (VInt 1)))]) # [Pass])
     = Inl MightReturnDifferent"
proof -
  have a: "Blck_chck_loop (RType IntTy) [] (mark \<lparr>frmls = [], frames = []\<rparr>) Void
       [Whil (Ltrl (VBool True)) (Blck [FRtn (Some (Ltrl (VInt 1)))])]
     = Inr (VoidOr IntTy, \<lparr>frmls = [], frames = [[]]\<rparr>)"
    by (simp add: mark_def pop_until_mark_def)
  have n: "\<forall>T. VoidOr IntTy \<noteq> RType T" by simp
  have b: "chck_stmt (RType IntTy) [] \<lparr>frmls = [], frames = [[]]\<rparr> (FRtn (Some (Ltrl (VInt 2))))
     = Inr (RType IntTy, \<lparr>frmls = [], frames = [[]]\<rparr>)"
    by simp
  have c: "chck_stmt (RType IntTy) [] \<lparr>frmls = [], frames = [[]]\<rparr>
       (Whil (Ltrl (VBool True)) (Blck [FRtn (Some (Ltrl (VInt 1)))]))
     = Inr (VoidOr IntTy, \<lparr>frmls = [], frames = [[]]\<rparr>)"
    by (simp add: mark_def pop_until_mark_def)
  have ne: "StrTy \<noteq> IntTy" by simp
  note t1 = Blck_chck_sequential_merge[where expd = "RType IntTy" and defs = "[]"
      and ?symt0.0 = "\<lparr>frmls = [], frames = []\<rparr>"
      and pre = "[Whil (Ltrl (VBool True)) (Blck [FRtn (Some (Ltrl (VInt 1)))])]"
      and acc = "VoidOr IntTy" and symt = "\<lparr>frmls = [], frames = [[]]\<rparr>"
      and symt' = "\<lparr>frmls = [], frames = [[]]\<rparr>"
      and stmt = "FRtn (Some (Ltrl (VInt 2)))" and stmt_rtns = "RType IntTy"
      and post = "[Prnt [Mnus (Ltrl (VInt 1)) (Ltrl (VStr ''a''))]]",
      THEN conjunct1, rule_format, OF conjI[OF a conjI[OF n b]], unfolded Rtns.case]
  note t2 = Blck_chck_sequential_merge[where expd = "RType IntTy" and defs = "[]"
      and symt = "\<lparr>frmls = [], frames = [[]]\<rparr>" and symt' = "\<lparr>frmls = [], frames = [[]]\<rparr>"
      and stmt = "Whil (Ltrl (VBool True)) (Blck [FRtn (Some (Ltrl (VInt 1)))])"
      and T = IntTy and T' = StrTy and post = "[Pass]",
      THEN conjunct2, THEN conjunct2, rule_format, OF conjI[OF c ne]]
  from a n b t1 c ne t2 show ?thesis by (intro conjI)
qed

subsection \<open>Loops\<close>

text \<open>
  C8: \<open>Whil::chck\<close> and \<open>Rept::chck\<close> are the same function of the type of the
  condition and the behaviour of the body, the loop rule of the specification; they
  differ in the text of the error for a condition that is not a \<open>bool\<close>. A
  repeat-until body that always returns makes the loop \<open>VoidOr T\<close>, as for while.
\<close>

theorem Whil_Rept_chck_same_rule:
  "chck_stmt expd defs symt (Whil c b)
     = loop_merge_spec WhileCondNotBool (chck_expn defs symt c) (chck_blck expd defs symt b)
   \<and> chck_stmt expd defs symt (Rept c b)
     = loop_merge_spec RepeatCondNotBool (chck_expn defs symt c) (chck_blck expd defs symt b)
   \<and> chck_stmt (RType IntTy) defs symt
        (Rept (Ltrl (VBool True)) (Blck [FRtn (Some (Ltrl (VInt 1)))]))
     = Inr (VoidOr IntTy, symt)
   \<and> chck_stmt (RType IntTy) defs symt
        (Whil (Ltrl (VBool True)) (Blck [FRtn (Some (Ltrl (VInt 1)))]))
     = Inr (VoidOr IntTy, symt)"
  by (auto simp: loop_merge_spec_def mark_def pop_until_mark_def
      split: sum.splits prod.splits Rtns.splits)

subsection \<open>Declarations\<close>

lemma chck_expn_not_AlreadyIntroduced:
  shows "chck_expn defs symt e \<noteq> Inl (AlreadyIntroduced x)"
    and "chck_args defs symt fn i es \<noteq> Inl (AlreadyIntroduced x)"
  by (induction defs symt e and defs symt fn i es rule: chck_expn_chck_args.induct)
     (auto simp: chck_bin_def int_int_def bool_bool_def Plus_rule_def Tmes_rule_def
       split: sum.splits if_splits option.splits)

lemma is_redefining_mark: "\<not> is_redefining (mark symt) x"
  by (simp add: is_redefining_def current_frame_def mark_def)

lemma is_redefining_add_locl: "is_redefining (add_locl (mark symt) x ty) x"
  by (simp add: is_redefining_def current_frame_def mark_def add_locl_def)

lemma get_info_add_locl:
  "\<not> is_redefining symt x \<Longrightarrow> get_info (add_locl symt x ty) x = Some (x, ty)"
  by (cases "frames symt")
     (auto simp: is_redefining_def current_frame_def add_locl_def get_info_def map_add_def
       split: option.splits)

lemma get_info_mark: "get_info (mark symt) x = get_info symt x"
  by (simp add: get_info_def mark_def)

lemma pop_add_locl_mark: "pop_until_mark (add_locl (mark symt) x ty) = Inr symt"
  by (simp add: pop_until_mark_def add_locl_def mark_def)

text \<open>
  C9: \<open>Ntro::chck\<close> raises "already introduced" exactly when \<open>is_redefining\<close> holds,
  that is when the name has an entry in the current innermost frame; otherwise, with
  an initializer that checks, it accepts and binds the name in the current frame. In
  the fresh frame of a block no name is a redefinition. Two declarations of a name one
  after the other in a block are rejected; a declaration in the body of a nested \<open>if\<close>
  (with an \<open>else\<close>) that shadows a declaration of the enclosing block is accepted.
\<close>

theorem Ntro_chck_redefinition:
  "(chck_stmt expd defs symt (Ntro x ty e) = Inl (AlreadyIntroduced x)) = is_redefining symt x
   \<and> is_redefining symt x = (x \<in> fst ` set (current_frame symt))
   \<and> (\<not> is_redefining symt x \<and> chck_expn defs symt e = Inr ety \<longrightarrow>
        chck_stmt expd defs symt (Ntro x ty e) = Inr (Void, add_locl symt x ety) \<and>
        map_of (current_frame (add_locl symt x ety)) x = Some ety)
   \<and> \<not> is_redefining (mark symt) x
   \<and> (chck_expn defs (mark symt) e1 = Inr t1 \<longrightarrow>
        chck_blck expd defs symt (Blck (Ntro x ty1 e1 # Ntro x ty2 e2 # rest))
          = Inl (AlreadyIntroduced x))
   \<and> (chck_expn defs (mark symt) e1 = Inr t1 \<and>
      chck_expn defs (add_locl (mark symt) x t1) c = Inr BoolTy \<and>
      chck_expn defs (mark (add_locl (mark symt) x t1)) e2 = Inr t2 \<longrightarrow>
        chck_blck expd defs symt
          (Blck [Ntro x ty1 e1,
                 Cond [Ifcd c (Blck [Ntro x ty2 e2])] (Some (Else (Blck [Pass])))])
          = Inr (Void, symt))"
proof (intro conjI impI)
  show "(chck_stmt expd defs symt (Ntro x ty e) = Inl (AlreadyIntroduced x)) = is_redefining symt x"
    using chck_expn_not_AlreadyIntroduced(1)[of defs symt e x]
    by (auto split: sum.splits)
next
  show "is_redefining symt x = (x \<in> fst ` set (current_frame symt))"
    by (simp add: is_redefining_def map_of_eq_None_iff)
next
  assume "\<not> is_redefining symt x \<and> chck_expn defs symt e = Inr ety"
  then show "chck_stmt expd defs symt (Ntro x ty e) = Inr (Void, add_locl symt x ety)"
    by simp
next
  assume "\<not> is_redefining symt x \<and> chck_expn defs symt e = Inr ety"
  then show "map_of (current_frame (add_locl symt x ety)) x = Some ety"
    by (cases "frames symt")
       (auto simp: is_redefining_def current_frame_def add_locl_def map_add_def
         split: option.splits)
next
  show "\<not> is_redefining (mark symt) x" by (rule is_redefining_mark)
next
  assume "chck_expn defs (mark symt) e1 = Inr t1"
  then show "chck_blck expd defs symt (Blck (Ntro x ty1 e1 # Ntro x ty2 e2 # rest))
      = Inl (AlreadyIntroduced x)"
    by (simp add: is_redefining_mark is_redefining_add_locl)
next
  assume h: "chck_expn defs (mark symt) e1 = Inr t1 \<and>
      chck_expn defs (add_locl (mark symt) x t1) c = Inr BoolTy \<and>
      chck_expn defs (mark (add_locl (mark symt) x t1)) e2 = Inr t2"
  let ?s1 = "add_locl (mark symt) x t1"
  have p: "chck_blck expd defs ?s1 (Blck [Pass]) = Inr (Void, ?s1)"
    by (simp add: mark_def pop_until_mark_def)
  have inner: "chck_blck expd defs ?s1 (Blck [Ntro x ty2 e2]) = Inr (Void, ?s1)"
    using h by (simp add: is_redefining_mark pop_add_locl_mark)
  have cond: "chck_stmt expd defs ?s1
      (Cond [Ifcd c (Blck [Ntro x ty2 e2])] (Some (Else (Blck [Pass])))) = Inr (Void, ?s1)"
    using h inner p by (simp add: Cond_merge_def del: chck_blck.simps)
  have ntro: "chck_stmt expd defs (mark symt) (Ntro x ty1 e1) = Inr (Void, ?s1)"
    using h by (simp add: is_redefining_mark)
  have "Blck_chck_loop expd defs (mark symt) Void
      [Ntro x ty1 e1, Cond [Ifcd c (Blck [Ntro x ty2 e2])] (Some (Else (Blck [Pass])))]
      = Inr (Void, ?s1)"
    by (simp add: ntro cond del: chck_stmt.simps)
  then show "chck_blck expd defs symt
          (Blck [Ntro x ty1 e1,
                 Cond [Ifcd c (Blck [Ntro x ty2 e2])] (Some (Else (Blck [Pass])))])
          = Inr (Void, symt)"
    by (simp add: pop_add_locl_mark del: Blck_chck_loop.simps)
qed

text \<open>
  The hypotheses hold in the empty table for \<open>x: int = 1\<close>, followed by \<open>x: int = 2\<close>
  in the same block or by \<open>if True: x: int = 2 else: pass\<close>.
\<close>

theorem Ntro_chck_redefinition_witness:
  "\<not> is_redefining \<lparr>frmls = [], frames = []\<rparr> ''x''
   \<and> chck_expn [] \<lparr>frmls = [], frames = []\<rparr> (Ltrl (VInt 1)) = Inr IntTy
   \<and> chck_stmt Void [] \<lparr>frmls = [], frames = []\<rparr> (Ntro ''x'' IntTy (Ltrl (VInt 1)))
       = Inr (Void, add_locl \<lparr>frmls = [], frames = []\<rparr> ''x'' IntTy)
   \<and> chck_expn [] (mark \<lparr>frmls = [], frames = []\<rparr>) (Ltrl (VInt 1)) = Inr IntTy
   \<and> chck_blck Void [] \<lparr>frmls = [], frames = []\<rparr>
       (Blck (Ntro ''x'' IntTy (Ltrl (VInt 1)) # Ntro ''x'' IntTy (Ltrl (VInt 2)) # []))
       = Inl (AlreadyIntroduced ''x'')
   \<and> chck_expn [] (add_locl (mark \<lparr>frmls = [], frames = []\<rparr>) ''x'' IntTy) (Ltrl (VBool True))
       = Inr BoolTy
   \<and> chck_expn [] (mark (add_locl (mark \<lparr>frmls = [], frames = []\<rparr>) ''x'' IntTy)) (Ltrl (VInt 2))
       = Inr IntTy
   \<and> chck_blck Void [] \<lparr>frmls = [], frames = []\<rparr>
       (Blck [Ntro ''x'' IntTy (Ltrl (VInt 1)),
              Cond [Ifcd (Ltrl (VBool True)) (Blck [Ntro ''x'' IntTy (Ltrl (VInt 2))])]
                (Some (Else (Blck [Pass])))])
       = Inr (Void, \<lparr>frmls = [], frames = []\<rparr>)"
proof -
  note t = Ntro_chck_redefinition[where expd = Void and defs = "[]"
      and symt = "\<lparr>frmls = [], frames = []\<rparr>" and x = "''x''" and ty = IntTy
      and e = "Ltrl (VInt 1)" and ety = IntTy and ?e1.0 = "Ltrl (VInt 1)" and ?t1.0 = IntTy
      and ?ty1.0 = IntTy and ?e2.0 = "Ltrl (VInt 2)" and ?ty2.0 = IntTy and rest = "[]"
      and c = "Ltrl (VBool True)" and ?t2.0 = IntTy]
  have h1: "\<not> is_redefining \<lparr>frmls = [], frames = []\<rparr> ''x''"
    by (simp add: is_redefining_def current_frame_def)
  have h2: "chck_expn [] \<lparr>frmls = [], frames = []\<rparr> (Ltrl (VInt 1)) = Inr IntTy" by simp
  have h3: "chck_expn [] (mark \<lparr>frmls = [], frames = []\<rparr>) (Ltrl (VInt 1)) = Inr IntTy" by simp
  have h4: "chck_expn [] (add_locl (mark \<lparr>frmls = [], frames = []\<rparr>) ''x'' IntTy)
      (Ltrl (VBool True)) = Inr BoolTy" by simp
  have h5: "chck_expn [] (mark (add_locl (mark \<lparr>frmls = [], frames = []\<rparr>) ''x'' IntTy))
      (Ltrl (VInt 2)) = Inr IntTy" by simp
  from t h1 h2 h3 h4 h5 show ?thesis by blast
qed

text \<open>
  C10: \<open>Ntro::chck\<close> never reads the annotation of the declaration: the outcome is
  the same for any two annotations. When the declaration is accepted, the name is
  bound to the type of the initializer, and a lookup of the name in the resulting
  table, also from a nested block, has that type. So \<open>x: int = "a"\<close> is accepted where
  \<open>x\<close> is not a redefinition, and \<open>x\<close> then has the type \<open>str\<close>.
\<close>

theorem Ntro_chck_ignores_annotation:
  "chck_stmt expd defs symt (Ntro x ty e) = chck_stmt expd defs symt (Ntro x ty' e)
   \<and> (chck_stmt expd defs symt (Ntro x ty e) = Inr (r, symt') \<longrightarrow>
        (\<exists>ety. chck_expn defs symt e = Inr ety \<and>
               get_info symt' x = Some (x, ety) \<and>
               chck_expn defs' symt' (Lkup x) = Inr ety \<and>
               chck_expn defs' (mark symt') (Lkup x) = Inr ety))
   \<and> (\<not> is_redefining symt ''x'' \<longrightarrow>
        chck_stmt expd defs symt (Ntro ''x'' IntTy (Ltrl (VStr ''a'')))
          = Inr (Void, add_locl symt ''x'' StrTy) \<and>
        chck_expn defs (add_locl symt ''x'' StrTy) (Lkup ''x'') = Inr StrTy)"
proof (intro conjI impI)
  show "chck_stmt expd defs symt (Ntro x ty e) = chck_stmt expd defs symt (Ntro x ty' e)"
    by simp
next
  assume "chck_stmt expd defs symt (Ntro x ty e) = Inr (r, symt')"
  then obtain ety where n: "\<not> is_redefining symt x" and e: "chck_expn defs symt e = Inr ety"
    and s: "symt' = add_locl symt x ety"
    by (auto split: if_splits sum.splits)
  from get_info_add_locl[OF n, of ety] s have g: "get_info symt' x = Some (x, ety)" by simp
  then have "chck_expn defs' symt' (Lkup x) = Inr ety"
    and "chck_expn defs' (mark symt') (Lkup x) = Inr ety"
    by (simp_all add: has_info_def get_info_mark)
  with e g show "\<exists>ety. chck_expn defs symt e = Inr ety \<and>
               get_info symt' x = Some (x, ety) \<and>
               chck_expn defs' symt' (Lkup x) = Inr ety \<and>
               chck_expn defs' (mark symt') (Lkup x) = Inr ety"
    by blast
next
  assume "\<not> is_redefining symt ''x''"
  then show "chck_stmt expd defs symt (Ntro ''x'' IntTy (Ltrl (VStr ''a'')))
          = Inr (Void, add_locl symt ''x'' StrTy)"
    by simp
next
  assume "\<not> is_redefining symt ''x''"
  from get_info_add_locl[OF this, of StrTy]
  show "chck_expn defs (add_locl symt ''x'' StrTy) (Lkup ''x'') = Inr StrTy"
    by (simp add: has_info_def)
qed

text \<open>
  In the empty table \<open>x: int = "a"\<close> is accepted and binds \<open>x\<close> to \<open>str\<close>.
\<close>

theorem Ntro_chck_ignores_annotation_witness:
  "chck_stmt Void [] \<lparr>frmls = [], frames = []\<rparr> (Ntro ''x'' IntTy (Ltrl (VStr ''a'')))
       = Inr (Void, add_locl \<lparr>frmls = [], frames = []\<rparr> ''x'' StrTy)
   \<and> (\<exists>ety. chck_expn [] \<lparr>frmls = [], frames = []\<rparr> (Ltrl (VStr ''a'')) = Inr ety \<and>
            get_info (add_locl \<lparr>frmls = [], frames = []\<rparr> ''x'' StrTy) ''x'' = Some (''x'', ety) \<and>
            chck_expn [] (add_locl \<lparr>frmls = [], frames = []\<rparr> ''x'' StrTy) (Lkup ''x'') = Inr ety \<and>
            chck_expn [] (mark (add_locl \<lparr>frmls = [], frames = []\<rparr> ''x'' StrTy)) (Lkup ''x'')
              = Inr ety)
   \<and> \<not> is_redefining \<lparr>frmls = [], frames = []\<rparr> ''x''
   \<and> chck_expn [] (add_locl \<lparr>frmls = [], frames = []\<rparr> ''x'' StrTy) (Lkup ''x'') = Inr StrTy"
proof -
  note t = Ntro_chck_ignores_annotation[where expd = Void and defs = "[]" and defs' = "[]"
      and symt = "\<lparr>frmls = [], frames = []\<rparr>" and x = "''x''" and ty = IntTy and ty' = StrTy
      and e = "Ltrl (VStr ''a'')" and r = Void
      and symt' = "add_locl \<lparr>frmls = [], frames = []\<rparr> ''x'' StrTy"]
  have h1: "\<not> is_redefining \<lparr>frmls = [], frames = []\<rparr> ''x''"
    by (simp add: is_redefining_def current_frame_def)
  from t h1 show ?thesis by blast
qed

end
